theory Spec2Isabelle
  imports Main "HOL-Library.Sublist" "HOL-Library.AList"
begin

section \<open>Strings\<close>

text \<open>
  JavaScript strings are modelled as \<^typ>\<open>string\<close>. \<open>s.startsWith(t)\<close> and
  \<open>s.endsWith(t)\<close> are the prefix and suffix orders on lists; \<open>s.includes(t)\<close> holds when
  \<open>t\<close> starts at some position of \<open>s\<close>.
\<close>

definition startsWith :: "string \<Rightarrow> string \<Rightarrow> bool" where
  "startsWith s t = prefix t s"

definition endsWith :: "string \<Rightarrow> string \<Rightarrow> bool" where
  "endsWith s t = prefix (rev t) (rev s)"

fun str_includes :: "string \<Rightarrow> string \<Rightarrow> bool" where
  "str_includes [] t = (t = [])"
| "str_includes (c # cs) t = (prefix t (c # cs) \<or> str_includes cs t)"

text \<open>
  \<open>s.replace(pat, '')\<close> with a string pattern removes the first occurrence of \<open>pat\<close>.
\<close>

fun replace_first :: "string \<Rightarrow> string \<Rightarrow> string" where
  "replace_first [] pat = []"
| "replace_first (c # cs) pat =
     (if prefix pat (c # cs) then drop (length pat) (c # cs)
      else c # replace_first cs pat)"

text \<open>
  \<open>toLowerCase\<close> and \<open>toUpperCase\<close> on one character, and the test \<open>/^[A-Z]/\<close>. A
  \<^typ>\<open>char\<close> is a byte: the letters of ASCII are mapped, every other byte is kept.
\<close>

definition upperAZ :: string where "upperAZ = ''ABCDEFGHIJKLMNOPQRSTUVWXYZ''"
definition lowerAZ :: string where "lowerAZ = ''abcdefghijklmnopqrstuvwxyz''"

definition isUpperAZ :: "char \<Rightarrow> bool" where
  "isUpperAZ c = (c \<in> set upperAZ)"

definition isLowerAZ :: "char \<Rightarrow> bool" where
  "isLowerAZ c = (c \<in> set lowerAZ)"

definition toLowerCase :: "char \<Rightarrow> char" where
  "toLowerCase c = (case map_of (zip upperAZ lowerAZ) c of None \<Rightarrow> c | Some d \<Rightarrow> d)"

definition toUpperCase :: "char \<Rightarrow> char" where
  "toUpperCase c = (case map_of (zip lowerAZ upperAZ) c of None \<Rightarrow> c | Some d \<Rightarrow> d)"

text \<open>
  \<open>s[0].toLowerCase() + s.slice(1)\<close> and its upper-case twin. \<open>s[0]\<close> is \<open>undefined\<close>
  for the empty string and the method call on it throws: \<open>None\<close>.
\<close>

fun lowerFirst :: "string \<Rightarrow> string option" where
  "lowerFirst [] = None"
| "lowerFirst (c # cs) = Some (toLowerCase c # cs)"

fun upperFirst :: "string \<Rightarrow> string option" where
  "upperFirst [] = None"
| "upperFirst (c # cs) = Some (toUpperCase c # cs)"

definition startsUpper :: "string \<Rightarrow> bool" where
  "startsUpper s = (case s of [] \<Rightarrow> False | c # cs \<Rightarrow> isUpperAZ c)"

section \<open>Constants (utils/constants)\<close>

definition USE_STRICT :: string where "USE_STRICT = ''use strict''"
definition GBL_CONTEXT_JS :: string where "GBL_CONTEXT_JS = ''gblContext.js''"
definition CCTX_CMP_NAME_PREFIX :: string where "CCTX_CMP_NAME_PREFIX = ''_$_ctx_''"
definition CCTX :: string where "CCTX = ''CTX_''"
definition REACT_IMPORT_CORE_NAME :: string where "REACT_IMPORT_CORE_NAME = ''react''"
definition REACT_IMPORT_USE_STATE_HOOKS_NAME :: string where
  "REACT_IMPORT_USE_STATE_HOOKS_NAME = ''useState''"
definition CCTX_REACT :: string where "CCTX_REACT = ''react''"
definition CCTX_USE_CONTEXT :: string where "CCTX_USE_CONTEXT = ''useContext''"
definition CCTX_CREATE_ELEMENT :: string where "CCTX_CREATE_ELEMENT = ''createElement''"
definition CCTX_PROVIDER :: string where "CCTX_PROVIDER = ''Provider''"
definition CCTX_VALUE :: string where "CCTX_VALUE = ''value''"
definition IDENTIFIER :: string where "IDENTIFIER = ''Identifier''"
definition NUMERIC_LITERAL :: string where "NUMERIC_LITERAL = ''NumericLiteral''"
definition STRING_LITERAL :: string where "STRING_LITERAL = ''StringLiteral''"
definition BOOLEAN_LITERAL :: string where "BOOLEAN_LITERAL = ''BooleanLiteral''"
definition ARRAY_EXPRESSION :: string where "ARRAY_EXPRESSION = ''ArrayExpression''"
definition OBJECT_EXPRESSION :: string where "OBJECT_EXPRESSION = ''ObjectExpression''"
definition VARIABLE_DECLARATOR :: string where "VARIABLE_DECLARATOR = ''VariableDeclarator''"
definition ASSIGNMENT_EXPRESSION :: string where
  "ASSIGNMENT_EXPRESSION = ''AssignmentExpression''"
definition UPDATE_EXPRESSION :: string where "UPDATE_EXPRESSION = ''UpdateExpression''"
definition CCTX_ID :: string where "CCTX_ID = ''id''"
definition CCTX_LEFT :: string where "CCTX_LEFT = ''left''"
definition CCTX_ARGUMENT :: string where "CCTX_ARGUMENT = ''argument''"
definition CCTX_KEY :: string where "CCTX_KEY = ''key''"
definition CCTX_BODY :: string where "CCTX_BODY = ''body''"
definition CCTX_VAR :: string where "CCTX_VAR = ''var''"
definition CCTX_CONST :: string where "CCTX_CONST = ''const''"
definition CCTX_REQUIRE :: string where "CCTX_REQUIRE = ''require''"
definition CCTX_UNDUS_CORE_REACT :: string where "CCTX_UNDUS_CORE_REACT = ''_react''"
definition CCTX_UNDUS_CORE_GBL_CONTEXT :: string where
  "CCTX_UNDUS_CORE_GBL_CONTEXT = ''_gblContext''"
definition PREV_STATE :: string where "PREV_STATE = ''prevState''"
definition CCTX_SET :: string where "CCTX_SET = ''set''"
definition ANONYMOUS_FUNCTION :: string where "ANONYMOUS_FUNCTION = ''anonymous_function''"
definition NODE_MODULES :: string where "NODE_MODULES = ''node_modules''"
definition FOLDER_DIST :: string where "FOLDER_DIST = ''/dist/''"
definition FOLDER_BUILD :: string where "FOLDER_BUILD = ''/build/''"

lemmas constants_defs =
  USE_STRICT_def GBL_CONTEXT_JS_def CCTX_CMP_NAME_PREFIX_def CCTX_def
  REACT_IMPORT_CORE_NAME_def
  REACT_IMPORT_USE_STATE_HOOKS_NAME_def CCTX_REACT_def CCTX_USE_CONTEXT_def
  CCTX_CREATE_ELEMENT_def CCTX_PROVIDER_def CCTX_VALUE_def IDENTIFIER_def NUMERIC_LITERAL_def
  STRING_LITERAL_def BOOLEAN_LITERAL_def ARRAY_EXPRESSION_def OBJECT_EXPRESSION_def
  VARIABLE_DECLARATOR_def ASSIGNMENT_EXPRESSION_def UPDATE_EXPRESSION_def CCTX_ID_def
  CCTX_LEFT_def CCTX_ARGUMENT_def CCTX_KEY_def CCTX_BODY_def CCTX_VAR_def CCTX_CONST_def
  CCTX_REQUIRE_def CCTX_UNDUS_CORE_REACT_def CCTX_UNDUS_CORE_GBL_CONTEXT_def PREV_STATE_def
  CCTX_SET_def ANONYMOUS_FUNCTION_def NODE_MODULES_def FOLDER_DIST_def FOLDER_BUILD_def

section \<open>The registry (utils/utilityHelpers)\<close>

text \<open>
  \<open>virtualRegistry\<close> is a plain object whose keys are \<open>`${componentName}_${fileHash}`\<close>.
  Such a key is never an integer index, so \<open>Object.entries\<close>, \<open>Object.keys\<close> and
  \<open>Object.values\<close> enumerate it in insertion order: the registry is an association list.
  An entry is \<open>{ varNames: string[], ctxName: string | null, defaults: {} }\<close>; the type
  \<^typ>\<open>'v\<close> is the type of default values.
\<close>

record 'v entry =
  varNames :: "string list"
  ctxName :: "string option"
  defaults :: "(string \<times> 'v) list"

type_synonym 'v registry = "(string \<times> 'v entry) list"

definition new_entry :: "'v entry" where
  "new_entry = \<lparr> varNames = [], ctxName = None, defaults = [] \<rparr>"

text \<open>
  \<open>registerVariable(componentNameHash, varName, defaultValue, virtualRegistry)\<close> mutates the
  registry and returns the context name; the model returns both. The first component is
  the returned \<open>ctxName\<close> (\<open>None\<close> is \<open>null\<close>).
\<close>

definition registerVariable ::
  "string \<Rightarrow> string \<Rightarrow> 'v \<Rightarrow> 'v registry \<Rightarrow> string option \<times> 'v registry" where
  "registerVariable componentNameHash varName defaultValue virtualRegistry =
     (let reg1 = (case map_of virtualRegistry componentNameHash of
                    None \<Rightarrow> virtualRegistry @ [(componentNameHash, new_entry)]
                  | Some e \<Rightarrow> virtualRegistry);
          e0 = (case map_of virtualRegistry componentNameHash of
                    None \<Rightarrow> new_entry
                  | Some e \<Rightarrow> e)
      in if varName \<in> set (varNames e0) then (ctxName e0, reg1)
         else
           let ctx = CCTX_CMP_NAME_PREFIX @ componentNameHash;
               e1 = e0 \<lparr> ctxName := Some ctx \<rparr>;
               e2 = e1 \<lparr> varNames := varNames e1 @ [varName] \<rparr>;
               newDefaults = AList.update varName defaultValue (defaults e2);
               e3 = e2 \<lparr> defaults := newDefaults \<rparr>
           in (Some ctx, AList.update componentNameHash e3 reg1))"

text \<open>
  \<open>findContextByVar(varName, virtualRegistry)\<close>: the key of the first entry, in
  enumeration order, whose \<open>varNames\<close> includes the name; \<open>null\<close> when there is none.
\<close>

fun findContextByVar :: "string \<Rightarrow> 'v registry \<Rightarrow> string option" where
  "findContextByVar varName [] = None"
| "findContextByVar varName ((key, ctxData) # rest) =
     (if varName \<in> set (varNames ctxData) then Some key
      else findContextByVar varName rest)"

text \<open>
  \<open>resetVarsForFile(virtualRegistry, fileHash)\<close>: every entry whose key ends with
  \<open>`_${fileHash}`\<close> gets \<open>varNames = []\<close> and \<open>defaults = {}\<close>.
\<close>

definition resetVarsForFile :: "'v registry \<Rightarrow> string \<Rightarrow> 'v registry" where
  "resetVarsForFile virtualRegistry fileHash =
     map (\<lambda>(key, e). if endsWith key (''_'' @ fileHash)
                      then (key, e \<lparr> varNames := [], defaults := [] \<rparr>)
                      else (key, e))
         virtualRegistry"


section \<open>JavaScript values and Babel nodes\<close>

text \<open>
  A Babel node is a plain object with a \<open>type\<close> property; the code reads nodes through
  property access, optional chaining and truthiness tests. Values are modelled as they
  are in JavaScript: an object is an ordered list of properties, a missing property
  reads as \<open>undefined\<close>, and reading a property of \<open>undefined\<close> or \<open>null\<close> throws.
  A finite number is held as the decimal \<open>m / 10\<^sup>k\<close> that \<open>Number::toString\<close> prints for it
  (the shortest decimal that reads back as the same double), with the least \<open>k\<close>, so
  that equal numbers are equal values; \<open>k = 0\<close> for an integer. \<open>NaN\<close> and the infinities,
  which no literal but an overflowing one denotes, are left out. A node carries the properties the plugin and
  Babel's traversal read (children in the order of Babel's visitor keys), and a parsed
  node carries its source offset \<open>start\<close>, which tells two occurrences of one name apart
  as object identity does in the \<open>seen\<close> set.
\<close>

datatype jsval =
    JUndefined
  | JNull
  | JBool bool
  | JNum int nat
  | JStr string
  | JArr "jsval list"
  | JObj "(string \<times> jsval) list"

abbreviation JInt :: "int \<Rightarrow> jsval" where
  "JInt n \<equiv> JNum n 0"

fun truthy :: "jsval \<Rightarrow> bool" where
  "truthy JUndefined = False"
| "truthy JNull = False"
| "truthy (JBool b) = b"
| "truthy (JNum m k) = (m \<noteq> 0)"
| "truthy (JStr s) = (s \<noteq> [])"
| "truthy (JArr xs) = True"
| "truthy (JObj ps) = True"

text \<open>\<open>v.k\<close>: \<open>None\<close> is the TypeError thrown when \<open>v\<close> is \<open>undefined\<close> or \<open>null\<close>.\<close>

fun getp :: "jsval \<Rightarrow> string \<Rightarrow> jsval option" where
  "getp JUndefined k = None"
| "getp JNull k = None"
| "getp (JObj ps) k = Some (case map_of ps k of None \<Rightarrow> JUndefined | Some v \<Rightarrow> v)"
| "getp (JArr xs) k = Some (if k = ''length'' then JInt (int (length xs)) else JUndefined)"
| "getp (JStr s) k = Some (if k = ''length'' then JInt (int (length s)) else JUndefined)"
| "getp (JBool b) k = Some JUndefined"
| "getp (JNum m d) k = Some JUndefined"

text \<open>\<open>v?.k\<close>: \<open>undefined\<close> when \<open>v\<close> is \<open>undefined\<close> or \<open>null\<close>.\<close>

definition ogetp :: "jsval \<Rightarrow> string \<Rightarrow> jsval" where
  "ogetp v k = (case getp v k of None \<Rightarrow> JUndefined | Some x \<Rightarrow> x)"

text \<open>
  \<open>s?.startsWith(p)\<close> for a value \<open>s\<close>: \<open>undefined\<close> (falsy) when \<open>s\<close> is nullish, the
  prefix test when \<open>s\<close> is a string, and a TypeError (\<open>None\<close>) otherwise, since no other
  value has a \<open>startsWith\<close> method.
\<close>

fun opt_startsWith :: "jsval \<Rightarrow> string \<Rightarrow> bool option" where
  "opt_startsWith JUndefined p = Some False"
| "opt_startsWith JNull p = Some False"
| "opt_startsWith (JStr s) p = Some (startsWith s p)"
| "opt_startsWith v p = None"

text \<open>\<open>t.isX(v)\<close>: \<open>v\<close> is a node of type \<open>X\<close> (\<open>false\<close> for \<open>null\<close> and \<open>undefined\<close>).\<close>

definition isType :: "string \<Rightarrow> jsval \<Rightarrow> bool" where
  "isType T v = (getp v ''type'' = Some (JStr T))"

definition isNode :: "jsval \<Rightarrow> bool" where
  "isNode v = (case getp v ''type'' of Some (JStr T) \<Rightarrow> True | _ \<Rightarrow> False)"

text \<open>Babel's alias \<open>Function\<close>.\<close>

definition isFunction :: "jsval \<Rightarrow> bool" where
  "isFunction v = (isType ''FunctionDeclaration'' v \<or> isType ''FunctionExpression'' v
     \<or> isType ''ObjectMethod'' v \<or> isType ''ArrowFunctionExpression'' v
     \<or> isType ''ClassMethod'' v \<or> isType ''ClassPrivateMethod'' v)"

subsection \<open>Node builders (\<open>@babel/types\<close>)\<close>

definition t_identifier :: "string \<Rightarrow> jsval" where
  "t_identifier name = JObj [(''type'', JStr ''Identifier''), (''name'', JStr name)]"

definition t_stringLiteral :: "string \<Rightarrow> jsval" where
  "t_stringLiteral v = JObj [(''type'', JStr ''StringLiteral''), (''value'', JStr v)]"

definition t_numericLiteral :: "int \<Rightarrow> jsval" where
  "t_numericLiteral v = JObj [(''type'', JStr ''NumericLiteral''), (''value'', JInt v)]"

definition t_nullLiteral :: jsval where
  "t_nullLiteral = JObj [(''type'', JStr ''NullLiteral'')]"

definition t_memberExpression :: "jsval \<Rightarrow> jsval \<Rightarrow> bool \<Rightarrow> jsval" where
  "t_memberExpression object property computed =
     JObj [(''type'', JStr ''MemberExpression''), (''object'', object),
           (''property'', property), (''computed'', JBool computed)]"

definition t_callExpression :: "jsval \<Rightarrow> jsval list \<Rightarrow> jsval" where
  "t_callExpression callee arguments =
     JObj [(''type'', JStr ''CallExpression''), (''callee'', callee),
           (''arguments'', JArr arguments)]"

definition t_sequenceExpression :: "jsval list \<Rightarrow> jsval" where
  "t_sequenceExpression expressions =
     JObj [(''type'', JStr ''SequenceExpression''), (''expressions'', JArr expressions)]"

definition t_objectExpression :: "jsval list \<Rightarrow> jsval" where
  "t_objectExpression properties =
     JObj [(''type'', JStr ''ObjectExpression''), (''properties'', JArr properties)]"

definition t_objectProperty :: "jsval \<Rightarrow> jsval \<Rightarrow> bool \<Rightarrow> bool \<Rightarrow> jsval" where
  "t_objectProperty key val computed shorthand =
     JObj [(''type'', JStr ''ObjectProperty''), (''key'', key), (''value'', val),
           (''computed'', JBool computed), (''shorthand'', JBool shorthand)]"

definition t_spreadElement :: "jsval \<Rightarrow> jsval" where
  "t_spreadElement argument =
     JObj [(''type'', JStr ''SpreadElement''), (''argument'', argument)]"

definition t_arrowFunctionExpression :: "jsval list \<Rightarrow> jsval \<Rightarrow> jsval" where
  "t_arrowFunctionExpression params body =
     JObj [(''type'', JStr ''ArrowFunctionExpression''), (''params'', JArr params),
           (''body'', body)]"

definition t_arrayPattern :: "jsval list \<Rightarrow> jsval" where
  "t_arrayPattern elements =
     JObj [(''type'', JStr ''ArrayPattern''), (''elements'', JArr elements)]"

definition t_variableDeclarator :: "jsval \<Rightarrow> jsval \<Rightarrow> jsval" where
  "t_variableDeclarator ident init =
     JObj [(''type'', JStr ''VariableDeclarator''), (''id'', ident), (''init'', init)]"

definition t_variableDeclaration :: "string \<Rightarrow> jsval list \<Rightarrow> jsval" where
  "t_variableDeclaration kind declarations =
     JObj [(''type'', JStr ''VariableDeclaration''), (''kind'', JStr kind),
           (''declarations'', JArr declarations)]"

lemmas builders_defs =
  t_identifier_def t_stringLiteral_def t_numericLiteral_def t_nullLiteral_def
  t_memberExpression_def t_callExpression_def t_sequenceExpression_def
  t_objectExpression_def t_objectProperty_def t_spreadElement_def
  t_arrowFunctionExpression_def t_arrayPattern_def t_variableDeclarator_def
  t_variableDeclaration_def

subsection \<open>Paths\<close>

text \<open>
  A \<open>NodePath\<close> is a node together with its position in the tree. The position is kept
  as the list of frames from the node up to the root: a frame is the parent object with
  a hole where the child sits, either directly under a key or inside the array under a
  key. The tree exists once, so a change of an ancestor made through a path is seen by
  every path: \<open>plug\<close> rebuilds a parent from a frame and the child.
\<close>

datatype frame =
    InProp "(string \<times> jsval) list" string "(string \<times> jsval) list"
  | InList "(string \<times> jsval) list" string "jsval list" "jsval list" "(string \<times> jsval) list"

fun plug :: "frame \<Rightarrow> jsval \<Rightarrow> jsval" where
  "plug (InProp bef k aft) c = JObj (bef @ [(k, c)] @ aft)"
| "plug (InList bef k l r aft) c = JObj (bef @ [(k, JArr (l @ [c] @ r))] @ aft)"

text \<open>\<open>path.parentKey\<close> (the \<open>listKey\<close> for a node inside an array).\<close>

fun fkey :: "frame \<Rightarrow> string" where
  "fkey (InProp bef k aft) = k"
| "fkey (InList bef k l r aft) = k"

type_synonym path = "jsval \<times> frame list"

fun parentPath :: "path \<Rightarrow> path option" where
  "parentPath (v, []) = None"
| "parentPath (v, f # fs) = Some (plug f v, fs)"

text \<open>\<open>path.findParent(P)\<close>: the nearest proper ancestor path that satisfies \<open>P\<close>.\<close>

fun findParent :: "(path \<Rightarrow> bool) \<Rightarrow> path \<Rightarrow> path option" where
  "findParent P (v, []) = None"
| "findParent P (v, f # fs) =
     (if P (plug f v, fs) then Some (plug f v, fs) else findParent P (plug f v, fs))"

definition getFunctionParent :: "path \<Rightarrow> path option" where
  "getFunctionParent p = findParent (\<lambda>q. isFunction (fst q)) p"

text \<open>\<open>path.get(k)\<close> for a key that holds one node.\<close>

definition path_get :: "path \<Rightarrow> string \<Rightarrow> path" where
  "path_get p k =
     (case fst p of
        JObj ps \<Rightarrow> (ogetp (fst p) k,
                    InProp (takeWhile (\<lambda>q. fst q \<noteq> k) ps) k
                           (drop 1 (dropWhile (\<lambda>q. fst q \<noteq> k) ps)) # snd p)
      | _ \<Rightarrow> (JUndefined, InProp [] k [] # snd p))"

text \<open>
  The path of an element of the array under a key, and the path reached from a root
  along a route of keys and indices. A step that does not exist gives a path with the
  node \<open>undefined\<close>.
\<close>

definition path_get_elem :: "path \<Rightarrow> string \<Rightarrow> nat \<Rightarrow> path" where
  "path_get_elem p k i =
     (case (fst p, ogetp (fst p) k) of
        (JObj ps, JArr xs) \<Rightarrow>
          (if i < length xs
           then (xs ! i,
                 InList (takeWhile (\<lambda>q. fst q \<noteq> k) ps) k (take i xs) (drop (Suc i) xs)
                        (drop 1 (dropWhile (\<lambda>q. fst q \<noteq> k) ps)) # snd p)
           else (JUndefined, InList [] k [] [] [] # snd p))
      | _ \<Rightarrow> (JUndefined, InList [] k [] [] [] # snd p))"

fun path_step :: "path \<Rightarrow> string \<times> nat option \<Rightarrow> path" where
  "path_step p (k, None) = path_get p k"
| "path_step p (k, Some i) = path_get_elem p k i"

definition path_of :: "jsval \<Rightarrow> (string \<times> nat option) list \<Rightarrow> path" where
  "path_of root route = foldl path_step (root, []) route"

text \<open>
  Babel's \<open>isReferenced(node, parent, grandparent)\<close>, which decides
  \<open>path.isReferencedIdentifier()\<close> for an identifier, for the parent types that occur in
  this development (Babel's own code is not part of the repository).
\<close>

definition isReferenced_babel :: "path \<Rightarrow> bool" where
  "isReferenced_babel p =
     (case snd p of
        [] \<Rightarrow> True
      | f # fs \<Rightarrow>
          let parent = plug f (fst p); k = fkey f
          in if isType ''MemberExpression'' parent \<or> isType ''OptionalMemberExpression'' parent
             then (if k = ''property'' then truthy (ogetp parent ''computed'') else k = ''object'')
             else if isType ''VariableDeclarator'' parent then k = ''init''
             else if isType ''ArrowFunctionExpression'' parent then k = ''body''
             else if isType ''ObjectProperty'' parent
             then (if k = ''key'' then truthy (ogetp parent ''computed'')
                   else (case fs of
                           [] \<Rightarrow> True
                         | g # gs \<Rightarrow> \<not> isType ''ObjectPattern'' (plug g parent)))
             else if isType ''AssignmentExpression'' parent \<or> isType ''AssignmentPattern'' parent
             then k = ''right''
             else if isType ''FunctionDeclaration'' parent \<or> isType ''FunctionExpression'' parent
                     \<or> isType ''ArrayPattern'' parent \<or> isType ''ObjectPattern'' parent
                     \<or> isType ''RestElement'' parent \<or> isType ''CatchClause'' parent
                     \<or> isType ''LabeledStatement'' parent \<or> isType ''JSXAttribute'' parent
             then False
             else True)"

lemma findParent_shorter:
  "findParent P p = Some q \<Longrightarrow> length (snd q) < length (snd p)"
proof (induction P p rule: findParent.induct)
  case (1 P v)
  then show ?case by simp
next
  case (2 P v f fs)
  then show ?case by (auto split: if_splits)
qed

subsection \<open>String conversion\<close>

text \<open>
  \<open>String(v)\<close>, as a template literal and a computed property key apply it; \<open>null\<close>
  and \<open>undefined\<close> inside an array print as the empty string.
\<close>

definition digit_char :: "int \<Rightarrow> char" where
  "digit_char d = (''0123456789'' ! nat d)"

text \<open>The decimal digits of an integer that is not negative.\<close>

function dec :: "int \<Rightarrow> string" where
  "dec n = (if n < 10 then [digit_char n] else dec (n div 10) @ [digit_char (n mod 10)])"
  by pat_completeness auto

termination dec
  by (relation "measure nat") auto

declare dec.simps [simp del]

text \<open>
  \<open>Number::toString(x)\<close> of ECMAScript for \<open>x = m / 10\<^sup>k\<close>. With \<open>s\<close> the digits of \<open>x\<close>
  without trailing zeros, \<open>l\<close> their number and \<open>n\<close> the position of the decimal point
  (\<open>x = 0.s \<times> 10\<^sup>n\<close>): the digits and \<open>n - l\<close> zeros when \<open>l \<le> n \<le> 21\<close>; the digits with
  a point after the first \<open>n\<close> when \<open>0 < n \<le> 21\<close>; \<open>0.\<close>, \<open>-n\<close> zeros and the digits when
  \<open>-6 < n \<le> 0\<close>; exponent notation otherwise.
\<close>

definition number_toString :: "int \<Rightarrow> nat \<Rightarrow> string" where
  "number_toString m k =
     (if m = 0 then ''0''
      else
        let ds = dec \<bar>m\<bar>;
            s = rev (dropWhile (\<lambda>c. c = CHR ''0'') (rev ds));
            l = int (length s);
            n = int (length ds) - int k;
            e = n - 1;
            es = (if e < 0 then ''-'' else ''+'') @ dec \<bar>e\<bar>
        in (if m < 0 then ''-'' else [])
           @ (if l \<le> n \<and> n \<le> 21 then s @ replicate (nat (n - l)) (CHR ''0'')
              else if 0 < n \<and> n \<le> 21 then take (nat n) s @ ''.'' @ drop (nat n) s
              else if - 6 < n \<and> n \<le> 0 then ''0.'' @ replicate (nat (- n)) (CHR ''0'') @ s
              else if l = 1 then s @ ''e'' @ es
              else take 1 s @ ''.'' @ drop 1 s @ ''e'' @ es))"

fun js_toString :: "jsval \<Rightarrow> string" and js_join :: "jsval list \<Rightarrow> string" where
  "js_toString JUndefined = ''undefined''"
| "js_toString JNull = ''null''"
| "js_toString (JBool b) = (if b then ''true'' else ''false'')"
| "js_toString (JNum m k) = number_toString m k"
| "js_toString (JStr s) = s"
| "js_toString (JArr xs) = js_join xs"
| "js_toString (JObj ps) = ''[object Object]''"
| "js_join [] = []"
| "js_join (x # xs) =
     (if x = JUndefined \<or> x = JNull then [] else js_toString x)
     @ (if xs = [] then [] else '','' @ js_join xs)"

subsection \<open>Properties of an ordinary object\<close>

text \<open>
  The own properties of an ordinary object are enumerated with the array indices first
  (the canonical decimal strings of the integers below \<open>2\<^sup>3\<^sup>2 - 1\<close>), in ascending
  order, and then the other string keys in the order of their creation.
  \<open>arrayIndex k\<close> is the index that the key \<open>k\<close> denotes, if it denotes one.
\<close>

definition digit_value :: "char \<Rightarrow> int" where
  "digit_value c = of_char c - 48"

definition arrayIndex :: "string \<Rightarrow> int option" where
  "arrayIndex k =
     (let n = foldl (\<lambda>a c. 10 * a + digit_value c) 0 k
      in if k \<noteq> [] \<and> list_all (\<lambda>c. c \<in> set ''0123456789'') k
            \<and> (k = ''0'' \<or> hd k \<noteq> CHR ''0'') \<and> n < 4294967295
         then Some n else None)"

fun insert_index :: "int \<Rightarrow> string \<Rightarrow> 'v \<Rightarrow> (string \<times> 'v) list \<Rightarrow> (string \<times> 'v) list" where
  "insert_index n k v [] = [(k, v)]"
| "insert_index n k v ((k', v') # ps) =
     (case arrayIndex k' of
        None \<Rightarrow> (k, v) # (k', v') # ps
      | Some n' \<Rightarrow> if n' < n then (k', v') # insert_index n k v ps
                  else (k, v) # (k', v') # ps)"

text \<open>
  \<open>obj[k] = v\<close> on an object made by \<open>{}\<close>: an own property keeps its place, a new one
  is created at its place in the enumeration. The key \<open>__proto__\<close> is the accessor of
  \<open>Object.prototype\<close>: the assignment sets the prototype or does nothing, and creates no
  own property.
\<close>

definition js_put :: "(string \<times> 'v) list \<Rightarrow> string \<Rightarrow> 'v \<Rightarrow> (string \<times> 'v) list" where
  "js_put obj k v =
     (if k = ''__proto__'' then obj
      else if k \<in> set (map fst obj) then AList.update k v obj
      else (case arrayIndex k of
              None \<Rightarrow> obj @ [(k, v)]
            | Some n \<Rightarrow> insert_index n k v obj))"
section \<open>Plugin state and environment\<close>

text \<open>
  \<open>this.opts\<close> (plugin options), \<open>state.importState\<close>, \<open>state.casperConfig\<close> and the
  per-file plugin state. \<open>None\<close> stands for a property that is \<open>undefined\<close>.
\<close>

record plugin_opts =
  sourceDir :: "string option"
  root :: "string option"

record import_state =
  reactId :: jsval
  useStateId :: jsval
  isDefault :: bool
  isNamed :: bool
  isNamespace :: bool
  reactImportPath :: jsval

record casper_config =
  cfg_prefix :: string
  debug :: bool

record plugin_state =
  filename :: "string option"
  opts :: "plugin_opts option"
  casperConfig :: "casper_config option"
  importState :: "import_state option"
  needsGblContext :: bool
  needUseStateImport :: bool

text \<open>
  What the code takes from Node.js and from Babel: the working directory and
  \<open>path.join\<close>, the hex MD5 digest of the resolved file path (\<open>None\<close> when \<open>path.resolve\<close>
  or \<open>crypto\<close> throws), the resolved \<open>CONTEXT_FILE_PATH\<close>, Babel's
  \<open>path.isReferencedIdentifier()\<close>, the fields of a node type that \<open>@babel/types\<close>
  validates and does not mark optional (\<open>requiredField T key\<close>; setting such a field to
  \<open>null\<close> throws), and whether the module runs as strict-mode code (an ES module always
  does; a build that drops the directive does not).
\<close>

record env =
  cwd :: string
  path_join :: "string \<Rightarrow> string \<Rightarrow> string"
  md5hex :: "string \<Rightarrow> string option"
  CONTEXT_FILE_PATH :: string
  isReferencedIdentifier :: "path \<Rightarrow> bool"
  requiredField :: "string \<Rightarrow> string \<Rightarrow> bool"
  strictMode :: bool

text \<open>
  The mutable world a visitor works on: the plugin state of the file, the process-wide
  \<open>virtualRegistry\<close> (defaults are JavaScript values) and the \<open>seen\<close> set of the plugin
  instance.
\<close>

record world =
  st :: plugin_state
  registry :: "jsval registry"
  seen :: "jsval set"

text \<open>
  A \<open>try\<close> block either completes or throws; both leave a state behind. \<open>try_catch\<close> is
  \<open>try { body } catch (e) { handler }\<close>.
\<close>

datatype 'a outcome = Returns 'a | Throws 'a

fun try_catch :: "'a outcome \<Rightarrow> ('a \<Rightarrow> 'a outcome) \<Rightarrow> 'a outcome" where
  "try_catch (Returns s) handler = Returns s"
| "try_catch (Throws s) handler = handler s"

fun final :: "'a outcome \<Rightarrow> 'a" where
  "final (Returns s) = s"
| "final (Throws s) = s"

section \<open>utils/utilityHelpers\<close>

definition NO_FILE :: string where "NO_FILE = ''noFile''"

definition getFilePathHASH :: "env \<Rightarrow> string \<Rightarrow> string" where
  "getFilePathHASH env fileName =
     (case md5hex env fileName of None \<Rightarrow> NO_FILE | Some digest \<Rightarrow> take 8 digest)"

definition isExcludeFile :: "env \<Rightarrow> string \<Rightarrow> plugin_opts option \<Rightarrow> bool" where
  "isExcludeFile env file os =
     (if str_includes file NODE_MODULES then False
      else if str_includes file FOLDER_DIST \<or> str_includes file FOLDER_BUILD then False
      else if str_includes file GBL_CONTEXT_JS then False
      else (case os of
              None \<Rightarrow> True
            | Some ops \<Rightarrow>
                (case sourceDir ops of
                   None \<Rightarrow> True
                 | Some sd \<Rightarrow>
                     if sd = [] then True
                     else
                       let rt = (case root ops of
                                   None \<Rightarrow> cwd env
                                 | Some r \<Rightarrow> if r = [] then cwd env else r);
                           srcRoot = path_join env rt sd
                       in startsWith file srcRoot)))"

text \<open>\<open>state.filename || _CCTX_EMPTY\<close>\<close>

definition fileName_of :: "plugin_state \<Rightarrow> string" where
  "fileName_of s = (case filename s of None \<Rightarrow> [] | Some f \<Rightarrow> f)"

text \<open>
  \<open>xs.some(f)\<close> where \<open>f\<close> may throw (\<open>None\<close>): the first \<open>true\<close> or the first throw
  decides.
\<close>

fun some_throwing :: "('a \<Rightarrow> bool option) \<Rightarrow> 'a list \<Rightarrow> bool option" where
  "some_throwing f [] = Some False"
| "some_throwing f (x # xs) =
     (case f x of None \<Rightarrow> None
      | Some True \<Rightarrow> Some True
      | Some False \<Rightarrow> some_throwing f xs)"

text \<open>
  \<open>isContextInstanceDeclare(path, t, varName)\<close> on the statements of a block; a throw is
  caught and the result is \<open>undefined\<close>, which the caller reads as \<open>false\<close>.
\<close>

definition isContextInstanceDeclare :: "jsval list \<Rightarrow> string \<Rightarrow> bool" where
  "isContextInstanceDeclare body varName =
     (case some_throwing
             (\<lambda>stmt. if \<not> isType ''VariableDeclaration'' stmt then Some False
                     else (case ogetp stmt ''declarations'' of
                             JArr ds \<Rightarrow>
                               some_throwing
                                 (\<lambda>decl. case getp decl ''id'' of
                                           None \<Rightarrow> None
                                         | Some i \<Rightarrow> Some (isType ''Identifier'' i
                                                           \<and> getp i ''name'' = Some (JStr varName)))
                                 ds
                           | _ \<Rightarrow> None))
             body of
        None \<Rightarrow> False
      | Some b \<Rightarrow> b)"

text \<open>\<open>getInsertionIndex(body, t)\<close> on the statements of a body.\<close>

definition getInsertionIndex :: "jsval list \<Rightarrow> nat" where
  "getInsertionIndex body =
     (case body of
        [] \<Rightarrow> 0
      | b0 # rest \<Rightarrow>
          if truthy b0 \<and> isType ''ExpressionStatement'' b0
             \<and> isType ''StringLiteral'' (ogetp b0 ''expression'')
             \<and> ogetp (ogetp b0 ''expression'') ''value'' = JStr USE_STRICT
          then 1 else 0)"

text \<open>
  \<open>resolveReact(path, t, state)\<close>: \<open>undefined\<close> when \<open>state.importState\<close> is
  \<open>undefined\<close> (the TypeError is caught).
\<close>

definition resolveReact :: "plugin_state \<Rightarrow> jsval" where
  "resolveReact s =
     (case importState s of
        None \<Rightarrow> JUndefined
      | Some imp \<Rightarrow> if truthy (reactId imp) then reactId imp
                    else t_identifier CCTX_UNDUS_CORE_REACT)"

section \<open>utils/astHelpers\<close>

text \<open>
  \<open>path.unshiftContainer(listKey, node)\<close> on the node of the path, and the assignment
  \<open>node.k = v\<close>. \<open>unshiftContainer\<close> throws (\<open>None\<close>) when the container is not an array.
\<close>

definition unshiftContainer :: "jsval \<Rightarrow> string \<Rightarrow> jsval \<Rightarrow> jsval option" where
  "unshiftContainer node listKey new =
     (case ogetp node listKey of
        JArr xs \<Rightarrow> (case node of
                      JObj ps \<Rightarrow> Some (JObj (AList.update listKey (JArr (new # xs)) ps))
                    | _ \<Rightarrow> None)
      | _ \<Rightarrow> None)"

definition set_prop :: "jsval \<Rightarrow> string \<Rightarrow> jsval \<Rightarrow> jsval" where
  "set_prop node k v = (case node of JObj ps \<Rightarrow> JObj (AList.update k v ps) | _ \<Rightarrow> node)"

definition buildRequireDeclaration :: "jsval \<Rightarrow> string \<Rightarrow> string \<Rightarrow> jsval" where
  "buildRequireDeclaration node identifier stringLiteral =
     (case unshiftContainer node CCTX_BODY
             (t_variableDeclaration CCTX_VAR
                [t_variableDeclarator (t_identifier identifier)
                   (t_callExpression (t_identifier CCTX_REQUIRE)
                      [t_stringLiteral stringLiteral])]) of
        None \<Rightarrow> node
      | Some node' \<Rightarrow> node')"

text \<open>
  \<open>buildCtxProvider(path, t, returnNode, state, stateName)\<close> on a \<open>ReturnStatement\<close> node.
  \<open>t.jsxElementToReactCreateElement\<close> does not exist in \<open>@babel/types\<close>: for a
  \<open>JSXElement\<close> the call throws and the statement stays as it is. The builders check
  that a child is a node and throw otherwise.
\<close>

definition buildCtxProvider :: "jsval \<Rightarrow> jsval \<Rightarrow> plugin_state \<Rightarrow> string \<Rightarrow> jsval" where
  "buildCtxProvider ret returnNode s stateName =
     (let reactName = resolveReact s
      in if isType ''JSXElement'' returnNode then ret
         else if \<not> isNode reactName \<or> \<not> isNode returnNode then ret
         else (case lowerFirst stateName of
                 None \<Rightarrow> ret
               | Some lname \<Rightarrow>
                   set_prop ret CCTX_ARGUMENT
                     (t_callExpression
                        (t_memberExpression reactName (t_identifier CCTX_CREATE_ELEMENT) False)
                        [t_memberExpression
                           (t_memberExpression (t_identifier CCTX_UNDUS_CORE_GBL_CONTEXT)
                              (t_identifier stateName) False)
                           (t_identifier CCTX_PROVIDER) False,
                         t_objectExpression
                           [t_objectProperty (t_identifier CCTX_VALUE)
                              (t_objectExpression
                                 [t_objectProperty (t_identifier lname) (t_identifier lname)
                                    False True,
                                  t_objectProperty (t_identifier (CCTX_SET @ stateName))
                                    (t_identifier (CCTX_SET @ stateName)) False True])
                              False False],
                         returnNode])))"

text \<open>
  \<open>buildCtxUseStateDeclaration(path, t, state, objProps, key)\<close> on a function node: the
  declaration \<open>const [key, setKey] = (0, useState)({...})\<close> is put first in the body.
\<close>

definition buildCtxUseStateDeclaration ::
  "jsval \<Rightarrow> plugin_state \<Rightarrow> jsval list \<Rightarrow> string \<Rightarrow> jsval" where
  "buildCtxUseStateDeclaration fnode s objProps key =
     (case importState s of
        None \<Rightarrow> fnode
      | Some imp \<Rightarrow>
          let useStateMembers =
                (if truthy (useStateId imp) then useStateId imp
                 else if truthy (reactId imp)
                 then t_memberExpression (reactId imp)
                        (t_identifier REACT_IMPORT_USE_STATE_HOOKS_NAME) False
                 else t_memberExpression (t_identifier CCTX_UNDUS_CORE_REACT)
                        (t_identifier REACT_IMPORT_USE_STATE_HOOKS_NAME) False)
          in if \<not> isNode useStateMembers then fnode
             else (case (lowerFirst key, upperFirst key) of
                     (Some lkey, Some ukey) \<Rightarrow>
                       let useStateSeq = t_sequenceExpression [t_numericLiteral 0, useStateMembers];
                           useStateCall = t_callExpression useStateSeq [t_objectExpression objProps];
                           stateDecl = t_variableDeclaration CCTX_CONST
                             [t_variableDeclarator
                                (t_arrayPattern [t_identifier lkey, t_identifier (CCTX_SET @ ukey)])
                                useStateCall]
                       in (case unshiftContainer (ogetp fnode CCTX_BODY) CCTX_BODY stateDecl of
                             None \<Rightarrow> fnode
                           | Some body' \<Rightarrow> set_prop fnode CCTX_BODY body')
                   | _ \<Rightarrow> fnode))"

text \<open>
  \<open>getInheritantDecComponent(path)\<close>: the name of the nearest enclosing function or class
  declaration, \<open>null\<close> at the top level. Two identifiers of the source are not bound in its
  module: \<open>t\<close> (read when a function expression is the right side of an assignment) and
  \<open>ANONYMOUS_CLASS\<close> (read for a class declaration without a name). Reading them throws a
  ReferenceError, which the \<open>catch\<close> turns into the result \<open>undefined\<close>.
\<close>

fun getInheritantDecComponent :: "path \<Rightarrow> jsval" where
  "getInheritantDecComponent (v, fs) =
     (if isType ''FunctionDeclaration'' v
      then (let n = ogetp (ogetp v ''id'') ''name''
            in if truthy n then n else JStr ANONYMOUS_FUNCTION)
      else if isType ''FunctionExpression'' v \<or> isType ''ArrowFunctionExpression'' v
      then (case parentPath (v, fs) of
              None \<Rightarrow> JStr ANONYMOUS_FUNCTION
            | Some parent \<Rightarrow>
                if isType ''VariableDeclarator'' (fst parent)
                then ogetp (ogetp (fst parent) ''id'') ''name''
                else if isType ''AssignmentExpression'' (fst parent) then JUndefined
                else JStr ANONYMOUS_FUNCTION)
      else if isType ''ClassDeclaration'' v
      then (let n = ogetp (ogetp v ''id'') ''name'' in if truthy n then n else JUndefined)
      else (case fs of
              [] \<Rightarrow> JNull
            | f # fs' \<Rightarrow> getInheritantDecComponent (plug f v, fs')))"

text \<open>
  \<open>isComponentFunction(funcPath)\<close>; the TypeError of a path without parent is caught and
  the result \<open>undefined\<close> is falsy.
\<close>

definition isComponentFunction :: "path \<Rightarrow> bool" where
  "isComponentFunction funcPath =
     (if isType ''FunctionDeclaration'' (fst funcPath) \<and> truthy (ogetp (fst funcPath) ''id'')
      then True
      else if isType ''ArrowFunctionExpression'' (fst funcPath)
              \<or> isType ''FunctionExpression'' (fst funcPath)
      then (case parentPath funcPath of
              None \<Rightarrow> False
            | Some parent \<Rightarrow> isType ''VariableDeclarator'' (fst parent))
      else False)"

fun getInheritantComponent_from :: "path \<Rightarrow> path option" where
  "getInheritantComponent_from (v, fs) =
     (if (isType ''FunctionDeclaration'' v \<or> isType ''FunctionExpression'' v
            \<or> isType ''ArrowFunctionExpression'' v)
         \<and> isComponentFunction (v, fs)
      then Some (v, fs)
      else (case fs of
              [] \<Rightarrow> None
            | f # fs' \<Rightarrow> getInheritantComponent_from (plug f v, fs')))"

definition getInheritantComponent :: "path option \<Rightarrow> path option" where
  "getInheritantComponent p =
     (case p of None \<Rightarrow> None | Some q \<Rightarrow> getInheritantComponent_from q)"

text \<open>
  \<open>getRootParentComponent(path)\<close>: climbs the function parents until one has a name that
  starts with an upper-case letter. The result is \<open>{ currentFuncParent, componentName }\<close>,
  or \<open>undefined\<close> (\<open>None\<close>) when a step throws. \<open>name_of_function\<close> is the name taken from
  one function parent (\<open>None\<close>: a TypeError).
\<close>

definition name_of_function :: "path \<Rightarrow> jsval option" where
  "name_of_function cur =
     (if truthy (ogetp (fst cur) ''id'') then getp (ogetp (fst cur) ''id'') ''name''
      else (case parentPath cur of
              None \<Rightarrow> None
            | Some parent \<Rightarrow>
                if isType ''VariableDeclarator'' (fst parent)
                then getp (ogetp (fst parent) ''id'') ''name''
                else Some JNull))"

text \<open>\<open>name && /^[A-Z]/.test(name)\<close>, for the names of a Babel tree, which are strings.\<close>

definition isComponentName :: "jsval \<Rightarrow> bool" where
  "isComponentName name = (case name of JStr s \<Rightarrow> startsUpper s | _ \<Rightarrow> False)"

function rootParentLoop :: "path option \<Rightarrow> (path option \<times> string option) option" where
  "rootParentLoop None = Some (None, None)"
| "rootParentLoop (Some cur) =
     (case name_of_function cur of
        None \<Rightarrow> None
      | Some name \<Rightarrow>
          (case name of
             JStr s \<Rightarrow> if startsUpper s then Some (Some cur, Some s)
                       else rootParentLoop (getFunctionParent cur)
           | _ \<Rightarrow> rootParentLoop (getFunctionParent cur)))"
  by pat_completeness auto
termination
proof (relation "measure (\<lambda>x. case x of None \<Rightarrow> 0 | Some p \<Rightarrow> Suc (length (snd p)))")
  show "wf (measure (\<lambda>x. case x of None \<Rightarrow> 0 | Some p \<Rightarrow> Suc (length (snd p))))"
    by simp
next
  fix cur :: path and x2 :: jsval and x5 :: string
  assume "\<not> startsUpper x5"
  show "(getFunctionParent cur, Some cur)
        \<in> measure (\<lambda>x. case x of None \<Rightarrow> 0 | Some p \<Rightarrow> Suc (length (snd p)))"
    by (auto simp: getFunctionParent_def split: option.splits dest: findParent_shorter)
qed (auto simp: getFunctionParent_def split: option.splits dest: findParent_shorter)

definition getRootParentComponent :: "path \<Rightarrow> (path option \<times> string option) option" where
  "getRootParentComponent p = rootParentLoop (getFunctionParent p)"

text \<open>
  \<open>buildSpreadObject(path, t)\<close> on an assignment node:
  \<open>prevState => ({ ...prevState, [left.name]: right })\<close>, or \<open>undefined\<close> when a builder throws.
\<close>

definition buildSpreadObject :: "jsval \<Rightarrow> jsval" where
  "buildSpreadObject node =
     (let assignedValue = ogetp node ''right'';
          paramIdentifier = t_identifier PREV_STATE;
          spreadExistingObject = t_spreadElement paramIdentifier
      in (case ogetp (ogetp node ''left'') ''name'' of
            JStr leftName \<Rightarrow>
              if \<not> isNode assignedValue then JUndefined
              else
                let newProperty = t_objectProperty (t_identifier leftName) assignedValue
                                    False False;
                    returnObject = t_objectExpression [spreadExistingObject, newProperty]
                in t_arrowFunctionExpression [paramIdentifier] returnObject
          | _ \<Rightarrow> JUndefined))"

definition replaceWithSetState :: "path \<Rightarrow> string \<Rightarrow> jsval \<Rightarrow> path" where
  "replaceWithSetState p ctxName' updateFunction =
     (if \<not> isNode updateFunction then p
      else (t_callExpression
              (t_identifier (''set'' @ replace_first ctxName' CCTX_CMP_NAME_PREFIX))
              [updateFunction],
            snd p))"

definition replaceWithState :: "path \<Rightarrow> string \<Rightarrow> path" where
  "replaceWithState p ctxName' =
     (case (lowerFirst ctxName', ogetp (fst p) ''name'') of
        (Some lname, JStr name) \<Rightarrow>
          (t_memberExpression (t_identifier lname) (t_stringLiteral name) True, snd p)
      | _ \<Rightarrow> p)"

definition replaceWithContextSetState :: "path \<Rightarrow> string \<Rightarrow> jsval \<Rightarrow> path" where
  "replaceWithContextSetState p ctxName' updateFunction =
     (if \<not> isNode updateFunction then p
      else (t_callExpression
              (t_memberExpression (t_identifier (CCTX @ ctxName'))
                 (t_identifier (''set'' @ replace_first ctxName' CCTX_CMP_NAME_PREFIX)) False)
              [updateFunction],
            snd p))"

definition replaceWithContextState :: "path \<Rightarrow> string \<Rightarrow> path" where
  "replaceWithContextState p ctxName' =
     (case (lowerFirst ctxName', ogetp (fst p) ''name'') of
        (Some lname, JStr name) \<Rightarrow>
          (t_memberExpression
             (t_memberExpression (t_identifier (CCTX @ ctxName')) (t_identifier lname) False)
             (t_stringLiteral name) True,
           snd p)
      | _ \<Rightarrow> p)"

subsection \<open>Injection of the context-read declaration\<close>

text \<open>
  \<open>bodyPath.node.body.splice(insertIndex, 0, ctxDecl)\<close> changes the body of an enclosing
  function while a node inside that function is visited. On frames: the function is the
  ancestor at depth \<open>d\<close> of the visited node; when the way down from it goes through its
  body, the statement list is the list of the frame below, otherwise the body is a
  property held by the function's own frame.
\<close>

definition list_insert :: "nat \<Rightarrow> 'a \<Rightarrow> 'a list \<Rightarrow> 'a list" where
  "list_insert i x xs = take i xs @ [x] @ drop i xs"

definition splice_value :: "nat \<Rightarrow> jsval \<Rightarrow> jsval \<Rightarrow> jsval" where
  "splice_value i x v = (case v of JArr xs \<Rightarrow> JArr (list_insert i x xs) | _ \<Rightarrow> v)"

definition splice_block :: "nat \<Rightarrow> jsval \<Rightarrow> jsval \<Rightarrow> jsval" where
  "splice_block i x block =
     (case block of
        JObj ps \<Rightarrow> JObj (AList.map_entry CCTX_BODY (splice_value i x) ps)
      | _ \<Rightarrow> block)"

definition map_entry2 ::
  "string \<Rightarrow> (jsval \<Rightarrow> jsval) \<Rightarrow> (string \<times> jsval) list \<Rightarrow> (string \<times> jsval) list
     \<Rightarrow> (string \<times> jsval) list \<times> (string \<times> jsval) list" where
  "map_entry2 k g bef aft =
     (if k \<in> fst ` set bef then (AList.map_entry k g bef, aft)
      else (bef, AList.map_entry k g aft))"

fun splice_in_block :: "nat \<Rightarrow> jsval \<Rightarrow> frame \<Rightarrow> frame" where
  "splice_in_block i x (InList bef k l r aft) =
     (if k = CCTX_BODY
      then (if i \<le> length l then InList bef k (list_insert i x l) r aft
            else InList bef k l (list_insert (i - length l - 1) x r) aft)
      else (case map_entry2 CCTX_BODY (splice_value i x) bef aft of
              (bef', aft') \<Rightarrow> InList bef' k l r aft'))"
| "splice_in_block i x (InProp bef k aft) =
     (if k = CCTX_BODY then InProp bef k aft
      else (case map_entry2 CCTX_BODY (splice_value i x) bef aft of
              (bef', aft') \<Rightarrow> InProp bef' k aft'))"

fun splice_in_function :: "nat \<Rightarrow> jsval \<Rightarrow> frame \<Rightarrow> frame" where
  "splice_in_function i x (InList bef k l r aft) =
     (case map_entry2 CCTX_BODY (splice_block i x) bef aft of
        (bef', aft') \<Rightarrow> InList bef' k l r aft')"
| "splice_in_function i x (InProp bef k aft) =
     (case map_entry2 CCTX_BODY (splice_block i x) bef aft of
        (bef', aft') \<Rightarrow> InProp bef' k aft')"

definition splice_body :: "nat \<Rightarrow> nat \<Rightarrow> jsval \<Rightarrow> frame list \<Rightarrow> frame list" where
  "splice_body d i x fs =
     (if d = 0 \<or> length fs < d then fs
      else if fkey (fs ! (d - 1)) = CCTX_BODY
      then (if 2 \<le> d then fs [d - 2 := splice_in_block i x (fs ! (d - 2))] else fs)
      else fs [d - 1 := splice_in_function i x (fs ! (d - 1))])"

text \<open>
  \<open>buildUseContextInstance(path, state, t, ctxName)\<close>, called with the root owner
  \<open>currentFuncParent\<close> of the visited path \<open>p\<close>; the result is the new position of \<open>p\<close>.
\<close>

definition buildUseContextInstance ::
  "path \<Rightarrow> path option \<Rightarrow> plugin_state \<Rightarrow> string \<Rightarrow> frame list" where
  "buildUseContextInstance p currentFuncParent s ctxName' =
     (case getInheritantComponent currentFuncParent of
        None \<Rightarrow> snd p
      | Some inheritantCMP \<Rightarrow>
          let bodyNode = ogetp (fst inheritantCMP) CCTX_BODY
          in if \<not> isType ''BlockStatement'' bodyNode then snd p
             else (case ogetp bodyNode CCTX_BODY of
                     JArr stmts \<Rightarrow>
                       let ctxVarName = CCTX @ ctxName'
                       in if isContextInstanceDeclare stmts ctxVarName then snd p
                          else
                            let ctxId = t_identifier ctxVarName;
                                reactName = resolveReact s
                            in if \<not> isNode reactName then snd p
                               else
                                 let ctxDecl = t_variableDeclaration CCTX_CONST
                                       [t_variableDeclarator ctxId
                                          (t_callExpression
                                             (t_sequenceExpression
                                                [t_numericLiteral 0,
                                                 t_memberExpression reactName
                                                   (t_identifier CCTX_USE_CONTEXT) False])
                                             [t_memberExpression
                                                (t_identifier CCTX_UNDUS_CORE_GBL_CONTEXT)
                                                (t_identifier ctxName') False])];
                                     insertIndex = getInsertionIndex stmts
                                 in splice_body (length (snd p) - length (snd inheritantCMP))
                                      insertIndex ctxDecl (snd p)
                   | _ \<Rightarrow> snd p))"

section \<open>visitors/Identifier\<close>

text \<open>
  \<open>name?.startsWith(state.casperConfig.prefix)\<close>: a nullish \<open>name\<close> ends the optional
  chain before the argument is read; otherwise reading the prefix of an \<open>undefined\<close>
  \<open>casperConfig\<close> throws, and so does the call on a value that is not a string.
\<close>

definition name_has_prefix :: "plugin_state \<Rightarrow> jsval \<Rightarrow> bool option" where
  "name_has_prefix s name =
     (if name = JUndefined \<or> name = JNull then Some False
      else (case casperConfig s of
              None \<Rightarrow> None
            | Some c \<Rightarrow> opt_startsWith name (cfg_prefix c)))"

definition isJSXAncestor :: "path \<Rightarrow> bool" where
  "isJSXAncestor q =
     (isType ''JSXExpressionContainer'' (fst q) \<or> isType ''JSXAttribute'' (fst q)
      \<or> isType ''JSXOpeningElement'' (fst q) \<or> isType ''JSXClosingElement'' (fst q)
      \<or> isType ''JSXMemberExpression'' (fst q))"

text \<open>\<open>findContextByVar\<close> applied to a name read from a node.\<close>

definition findContextByName :: "jsval \<Rightarrow> 'v registry \<Rightarrow> string option" where
  "findContextByName name r =
     (case name of JStr x \<Rightarrow> findContextByVar x r | _ \<Rightarrow> None)"

definition flagUseState :: "world \<Rightarrow> import_state \<Rightarrow> world" where
  "flagUseState w imp =
     (if \<not> truthy (reactId imp) \<and> \<not> truthy (useStateId imp)
      then w \<lparr> st := (st w) \<lparr> needUseStateImport := True \<rparr> \<rparr>
      else w)"

text \<open>
  The positions the visitor leaves alone: the \<open>id\<close> of a declarator, the \<open>left\<close> of an
  assignment, the \<open>argument\<close> of an update expression, and a key of an object property
  that is not computed.
\<close>

definition skippedPosition :: "jsval \<Rightarrow> string \<Rightarrow> bool" where
  "skippedPosition parent parentKey =
     ((isType VARIABLE_DECLARATOR parent \<and> parentKey = CCTX_ID)
      \<or> (isType ASSIGNMENT_EXPRESSION parent \<and> parentKey = CCTX_LEFT)
      \<or> (isType UPDATE_EXPRESSION parent \<and> parentKey = CCTX_ARGUMENT)
      \<or> (isType ''ObjectProperty'' parent \<and> parentKey = CCTX_KEY
          \<and> \<not> truthy (ogetp parent ''computed'')))"

definition identifierVisitor_try :: "env \<Rightarrow> world \<Rightarrow> path \<Rightarrow> (world \<times> path) outcome" where
  "identifierVisitor_try env w p =
     (if \<not> isExcludeFile env (fileName_of (st w)) (opts (st w)) then Returns (w, p)
      else (case name_has_prefix (st w) (ogetp (fst p) ''name'') of
              None \<Rightarrow> Throws (w, p)
            | Some False \<Rightarrow> Returns (w, p)
            | Some True \<Rightarrow>
                (case snd p of
                   [] \<Rightarrow> Throws (w, p)
                 | f # fs \<Rightarrow>
                     if skippedPosition (plug f (fst p)) (fkey f) then Returns (w, p)
                     else if findParent isJSXAncestor p \<noteq> None then Returns (w, p)
                     else if \<not> isReferencedIdentifier env p then Returns (w, p)
                     else if fst p \<in> seen w then Returns (w, p)
                     else
                       let w1 = w \<lparr> seen := insert (fst p) (seen w),
                                    st := (st w) \<lparr> needsGblContext := True \<rparr> \<rparr>
                       in (case getRootParentComponent p of
                             None \<Rightarrow> Throws (w1, p)
                           | Some (currentFuncParent, componentName) \<Rightarrow>
                               (case findContextByName (ogetp (fst p) ''name'') (registry w1) of
                                  None \<Rightarrow> Returns (w1, p)
                                | Some ctxName' \<Rightarrow>
                                    if ctxName' = [] then Returns (w1, p)
                                    else
                                      let isSameCMP =
                                            startsWith ctxName'
                                              (case componentName of
                                                 None \<Rightarrow> ''null''
                                               | Some c \<Rightarrow> c)
                                      in (case importState (st w1) of
                                            None \<Rightarrow> Throws (w1, p)
                                          | Some imp \<Rightarrow>
                                              let w2 = flagUseState w1 imp
                                              in if isSameCMP
                                                 then Returns (w2, replaceWithState p ctxName')
                                                 else
                                                   let fs' = buildUseContextInstance p
                                                               currentFuncParent (st w2) ctxName'
                                                   in Returns
                                                        (w2, replaceWithContextState
                                                               (fst p, fs') ctxName')))))))"

text \<open>The visitor is the \<open>try\<close> block with an empty \<open>catch\<close>.\<close>

definition identifierVisitor :: "env \<Rightarrow> world \<Rightarrow> path \<Rightarrow> (world \<times> path) outcome" where
  "identifierVisitor env w p = try_catch (identifierVisitor_try env w p) Returns"

section \<open>visitors/AssignmentExpression\<close>

text \<open>
  The statement \<open>inheritantCMP = componentName\<close> assigns to a variable that the module
  never declares. In strict-mode code that is a ReferenceError, caught by the visitor's
  own \<open>catch\<close>; in sloppy-mode code it creates a global and the visitor goes on.
\<close>

definition assignmentExpressionVisitor_try ::
  "env \<Rightarrow> world \<Rightarrow> path \<Rightarrow> (world \<times> path) outcome" where
  "assignmentExpressionVisitor_try env w p =
     (if \<not> isExcludeFile env (fileName_of (st w)) (opts (st w)) then Returns (w, p)
      else (case getp (ogetp (fst p) ''left'') ''type'' of
              None \<Rightarrow> Throws (w, p)
            | Some leftType \<Rightarrow>
                if leftType \<noteq> JStr IDENTIFIER then Returns (w, p)
                else (case name_has_prefix (st w) (ogetp (ogetp (fst p) ''left'') ''name'') of
                        None \<Rightarrow> Throws (w, p)
                      | Some False \<Rightarrow> Returns (w, p)
                      | Some True \<Rightarrow>
                          let w1 = w \<lparr> st := (st w) \<lparr> needsGblContext := True \<rparr> \<rparr>
                          in (case findContextByName (ogetp (ogetp (fst p) ''left'') ''name'')
                                     (registry w1) of
                                None \<Rightarrow> Returns (w1, p)
                              | Some ctxName' \<Rightarrow>
                                  if ctxName' = [] then Returns (w1, p)
                                  else (case getRootParentComponent p of
                                          None \<Rightarrow> Throws (w1, p)
                                        | Some (currentFuncParent, componentName) \<Rightarrow>
                                            if strictMode env then Throws (w1, p)
                                            else (case componentName of
                                                    None \<Rightarrow> Returns (w1, p)
                                                  | Some inheritantCMP \<Rightarrow>
  if inheritantCMP = [] then Returns (w1, p)
  else
    let isSameCMP = startsWith ctxName' inheritantCMP
    in (case importState (st w1) of
          None \<Rightarrow> Throws (w1, p)
        | Some imp \<Rightarrow>
            let w2 = flagUseState w1 imp;
                updateFunction = buildSpreadObject (fst p)
            in if isSameCMP
               then Returns (w2, replaceWithSetState p ctxName' updateFunction)
               else
                 let fs' = buildUseContextInstance p currentFuncParent (st w2) ctxName'
                 in Returns (w2, replaceWithContextSetState (fst p, fs') ctxName'
                                   updateFunction))))))))"

definition assignmentExpressionVisitor ::
  "env \<Rightarrow> world \<Rightarrow> path \<Rightarrow> (world \<times> path) outcome" where
  "assignmentExpressionVisitor env w p =
     try_catch (assignmentExpressionVisitor_try env w p) Returns"

section \<open>visitors/VariableDeclaration\<close>

text \<open>
  \<open>getVariableInitValue(path)\<close> on a declarator node. The identifier \<open>NON_LITERAL\<close> is
  not imported by the module: for an initializer that is no literal the assignment throws
  a ReferenceError and the \<open>catch\<close> returns the value so far, \<open>undefined\<close>. The same holds
  when an element or a property is \<open>null\<close>.
\<close>

fun objectInit :: "jsval list \<Rightarrow> (string \<times> jsval) list \<Rightarrow> (string \<times> jsval) list option" where
  "objectInit [] obj = Some obj"
| "objectInit (pr # prs) obj =
     (case getp pr ''key'' of
        None \<Rightarrow> None
      | Some k \<Rightarrow>
          if truthy k \<and> truthy (ogetp pr ''value'')
             \<and> ogetp (ogetp pr ''value'') ''value'' \<noteq> JUndefined
          then objectInit prs
                 (js_put obj
                    (js_toString (if truthy (ogetp k ''name'') then ogetp k ''name''
                                  else ogetp k ''value''))
                    (ogetp (ogetp pr ''value'') ''value''))
          else objectInit prs obj)"

definition getVariableInitValue :: "jsval \<Rightarrow> jsval" where
  "getVariableInitValue node =
     (let valNode = ogetp node ''init''
      in if \<not> truthy valNode then JUndefined
         else if ogetp valNode ''type'' = JStr NUMERIC_LITERAL
                 \<or> ogetp valNode ''type'' = JStr STRING_LITERAL
                 \<or> ogetp valNode ''type'' = JStr BOOLEAN_LITERAL
         then ogetp valNode ''value''
         else if ogetp valNode ''type'' = JStr ARRAY_EXPRESSION
         then (case ogetp valNode ''elements'' of
                 JArr es \<Rightarrow>
                   if list_ex (\<lambda>e. e = JUndefined \<or> e = JNull) es then JUndefined
                   else JArr (map (\<lambda>e. if ogetp e ''value'' = JUndefined
                                           \<or> ogetp e ''value'' = JNull
                                        then JNull else ogetp e ''value'') es)
               | _ \<Rightarrow> JUndefined)
         else if ogetp valNode ''type'' = JStr OBJECT_EXPRESSION
         then (case ogetp valNode ''properties'' of
                 JArr prs \<Rightarrow> (case objectInit prs [] of
                                None \<Rightarrow> JUndefined
                              | Some obj \<Rightarrow> JObj obj)
               | _ \<Rightarrow> JUndefined)
         else JUndefined)"

definition variableDeclarationVisitor_try ::
  "env \<Rightarrow> world \<Rightarrow> path \<Rightarrow> (world \<times> path) outcome" where
  "variableDeclarationVisitor_try env w p =
     (if \<not> isExcludeFile env (fileName_of (st w)) (opts (st w)) then Returns (w, p)
      else (case getp (ogetp (fst p) ''id'') ''name'' of
              None \<Rightarrow> Throws (w, p)
            | Some name \<Rightarrow>
                (case name_has_prefix (st w) name of
                   None \<Rightarrow> Throws (w, p)
                 | Some False \<Rightarrow> Returns (w, p)
                 | Some True \<Rightarrow>
                     let inheritantCMP = getInheritantDecComponent p
                     in if \<not> truthy inheritantCMP then Returns (w, p)
                        else
                          let filePathHash = getFilePathHASH env (fileName_of (st w));
                              init_value = getVariableInitValue (fst p);
                              w1 = w \<lparr> st := (st w) \<lparr> needsGblContext := True \<rparr> \<rparr>
                          in (case importState (st w1) of
                                None \<Rightarrow> Throws (w1, p)
                              | Some imp \<Rightarrow>
                                  let w2 = flagUseState w1 imp
                                  in Returns
                                       (w2 \<lparr> registry :=
                                               snd (registerVariable
                                                      (js_toString inheritantCMP @ ''_''
                                                         @ filePathHash)
                                                      (js_toString name) init_value
                                                      (registry w2)) \<rparr>,
                                        p)))))"

definition variableDeclarationVisitor ::
  "env \<Rightarrow> world \<Rightarrow> path \<Rightarrow> (world \<times> path) outcome" where
  "variableDeclarationVisitor env w p =
     try_catch (variableDeclarationVisitor_try env w p) Returns"

text \<open>
  \<open>functionReturnVariableDelarationVisitor\<close>, as far as it reads: the \<open>{ name, init }\<close>
  pair it pushes for a declarator, \<open>None\<close> when it pushes nothing (also when it throws).
\<close>

definition declaratorMatch :: "plugin_state \<Rightarrow> jsval \<Rightarrow> (string \<times> jsval) option" where
  "declaratorMatch s node =
     (let ident = ogetp node ''id''; init = ogetp node ''init''
      in if \<not> isType ''Identifier'' ident then None
         else (case (ogetp ident ''name'', casperConfig s) of
                 (JStr x, Some c) \<Rightarrow> if startsWith x (cfg_prefix c) then Some (x, init) else None
               | _ \<Rightarrow> None))"

section \<open>visitors/ReturnStatement\<close>

definition functionDeclarationReturnStatementVisitor ::
  "jsval \<Rightarrow> plugin_state \<Rightarrow> jsval entry \<Rightarrow> jsval" where
  "functionDeclarationReturnStatementVisitor ret s e =
     (let returnNode = ogetp ret ''argument''
      in if \<not> truthy returnNode then ret
         else (case ctxName e of
                 None \<Rightarrow> ret
               | Some c \<Rightarrow>
                   buildCtxProvider ret returnNode s (replace_first c CCTX_CMP_NAME_PREFIX)))"

section \<open>visitors/FunctionDeclaration\<close>

text \<open>
  What \<open>path.remove()\<close> of Babel does to a node under a key that holds a single node.
  Its removal hooks come first: the body of a labeled statement, the declaration of an
  export, the test of a \<open>while\<close> loop or of a switch case and the expression of an
  expression statement take their parent with them (\<open>removesParent\<close>); the consequent of
  an \<open>if\<close> and the body of a loop or of an arrow function are replaced by an empty block
  (\<open>leavesBlock\<close>). Otherwise the key is set to \<open>null\<close>, which \<open>@babel/types\<close> validates:
  for a required field the removal throws and the node stays. (The hooks for an operand
  of a binary expression and for the last member of a sequence expression concern
  removed expressions; the collection removes declarations.) A node in a list is spliced
  out of it.
\<close>

definition isWhile :: "jsval \<Rightarrow> bool" where
  "isWhile v = (isType ''DoWhileStatement'' v \<or> isType ''WhileStatement'' v)"

definition isLoop :: "jsval \<Rightarrow> bool" where
  "isLoop v = (isType ''DoWhileStatement'' v \<or> isType ''ForInStatement'' v
     \<or> isType ''ForStatement'' v \<or> isType ''WhileStatement'' v \<or> isType ''ForOfStatement'' v)"

definition isExportDeclaration :: "jsval \<Rightarrow> bool" where
  "isExportDeclaration v = (isType ''ExportAllDeclaration'' v
     \<or> isType ''ExportDefaultDeclaration'' v \<or> isType ''ExportNamedDeclaration'' v)"

definition removesParent :: "jsval \<Rightarrow> string \<Rightarrow> bool" where
  "removesParent parent key =
     ((key = ''test'' \<and> (isWhile parent \<or> isType ''SwitchCase'' parent))
      \<or> (key = ''declaration'' \<and> isExportDeclaration parent)
      \<or> (key = ''body'' \<and> isType ''LabeledStatement'' parent)
      \<or> (key = ''expression'' \<and> isType ''ExpressionStatement'' parent))"

definition leavesBlock :: "jsval \<Rightarrow> string \<Rightarrow> bool" where
  "leavesBlock parent key =
     ((isType ''IfStatement'' parent \<and> key = ''consequent'')
      \<or> (key = ''body'' \<and> (isLoop parent \<or> isType ''ArrowFunctionExpression'' parent)))"

definition emptyBlock :: jsval where
  "emptyBlock = JObj [(''type'', JStr ''BlockStatement''), (''body'', JArr [])]"

text \<open>
  \<open>goesFrom env parent key parentGoes\<close>: \<open>remove()\<close> of the node under \<open>key\<close> of \<open>parent\<close>
  does not throw; \<open>parentGoes\<close> says the same of \<open>parent\<close> in its own place.
\<close>

definition goesFrom :: "env \<Rightarrow> jsval \<Rightarrow> string \<Rightarrow> bool \<Rightarrow> bool" where
  "goesFrom env parent key parentGoes =
     (if removesParent parent key then parentGoes
      else if leavesBlock parent key then True
      else (case ogetp parent ''type'' of
              JStr T \<Rightarrow> \<not> requiredField env T key
            | _ \<Rightarrow> True))"

text \<open>
  \<open>path.traverse({ VariableDeclarator, ReturnStatement })\<close> at the exit of a function
  declaration. Babel's \<open>traverse\<close> visits every descendant of the path, nested functions
  included. The result is the new node (\<open>None\<close> when the node was removed) and the pairs
  pushed to \<open>localStateVars\<close>, in the order of the visit. \<open>isRoot\<close> marks the path
  \<open>traverse\<close> was called on, which the visitors do not visit; \<open>inDeclaration\<close> says that
  the parent is a \<open>VariableDeclaration\<close>; \<open>goes\<close> that a removal of the node, as the
  visitor asks for it, does not throw.

  The \<open>VariableDeclarator\<close> visitor pushes the pair of a matching declarator first. Then,
  under a \<open>VariableDeclaration\<close>, it removes the declarator when
  \<open>declarations.length\<close> is not 1 at that moment, and the whole declaration otherwise. A
  removed node is not descended into. When the removal throws, the visitor's \<open>catch\<close>
  swallows the error: the pair stays pushed, the node stays and is descended into.
  \<open>exitTraverseList\<close> walks a list with the number \<open>len\<close> of elements it holds at that
  moment. A declaration whose declarators are all gone has been removed by the last of
  them; a node whose child took it along (\<open>removesParent\<close>) is removed too.

  The \<open>ReturnStatement\<close> visitor runs on entry and the traversal then descends into the
  new argument; the nodes of the wrapper hold no declarator and no return statement, and
  the traversal keeps the type of the argument, so wrapping the traversed argument gives
  the same tree.
\<close>

fun exitTraverse ::
  "env \<Rightarrow> plugin_state \<Rightarrow> jsval entry \<Rightarrow> bool \<Rightarrow> bool \<Rightarrow> bool \<Rightarrow> jsval
     \<Rightarrow> jsval option \<times> (string \<times> jsval) list"
  and exitTraverseList ::
  "env \<Rightarrow> plugin_state \<Rightarrow> jsval entry \<Rightarrow> bool \<Rightarrow> bool \<Rightarrow> nat \<Rightarrow> jsval list
     \<Rightarrow> (jsval option \<times> (string \<times> jsval) list) list" where
  "exitTraverse env s e isRoot inDeclaration goes (JObj ps) =
     (let isDecl = isType ''VariableDeclaration'' (JObj ps);
          rs = map (\<lambda>(k, v). (k, exitTraverse env s e False isDecl
                                     (case v of JArr xs \<Rightarrow> goes
                                      | _ \<Rightarrow> goesFrom env (JObj ps) k goes) v)) ps;
          node' = JObj (map (\<lambda>(k, r). (k, case fst r of
                                               None \<Rightarrow> if leavesBlock (JObj ps) k then emptyBlock
                                                       else JNull
                                             | Some v' \<Rightarrow> v')) rs);
          vars = concat (map (\<lambda>(k, r). snd r) rs);
          descended =
            (if list_ex (\<lambda>(k, r). fst r = None \<and> removesParent (JObj ps) k) rs
             then (None, vars)
             else if isDecl \<and> ogetp (JObj ps) ''declarations'' \<noteq> JArr []
                \<and> ogetp node' ''declarations'' = JArr []
             then (None, vars)
             else if \<not> isRoot \<and> isType ''ReturnStatement'' node'
             then (Some (functionDeclarationReturnStatementVisitor node' s e), vars)
             else (Some node', vars))
      in if \<not> isRoot \<and> isType VARIABLE_DECLARATOR (JObj ps)
         then (case declaratorMatch s (JObj ps) of
                 None \<Rightarrow> descended
               | Some m \<Rightarrow> if inDeclaration \<and> goes then (None, [m])
                           else (fst descended, m # snd descended))
         else descended)"
| "exitTraverse env s e isRoot inDeclaration goes (JArr xs) =
     (let rs = exitTraverseList env s e inDeclaration goes (length xs) xs
      in (Some (JArr (List.map_filter fst rs)), concat (map snd rs)))"
| "exitTraverse env s e isRoot inDeclaration goes v = (Some v, [])"
| "exitTraverseList env s e inDeclaration parentGoes len [] = []"
| "exitTraverseList env s e inDeclaration parentGoes len (x # xs) =
     (let r = exitTraverse env s e False inDeclaration
                (if inDeclaration then len \<noteq> 1 \<or> parentGoes else True) x
      in r # exitTraverseList env s e inDeclaration parentGoes
               (if fst r = None then len - 1 else len) xs)"

definition functionDeclarationExit_try ::
  "env \<Rightarrow> world \<Rightarrow> path \<Rightarrow> (world \<times> path) outcome" where
  "functionDeclarationExit_try env w p =
     (if \<not> isExcludeFile env (fileName_of (st w)) (opts (st w)) then Returns (w, p)
      else
        let name = ogetp (ogetp (fst p) ''id'') ''name''
        in if \<not> truthy name then Returns (w, p)
           else
             let filePathHASH = getFilePathHASH env (fileName_of (st w));
                 key = js_toString name @ ''_'' @ filePathHASH
             in (case map_of (registry w) key of
                   None \<Rightarrow> Returns (w, p)
                 | Some e \<Rightarrow>
                     if varNames e = [] then Returns (w, p)
                     else (case exitTraverse env (st w) e True False False (fst p) of
                             (None, localStateVars) \<Rightarrow> Returns (w, p)
                           | (Some node', localStateVars) \<Rightarrow>
                               if localStateVars = [] then Returns (w, (node', snd p))
                               else
                                 let objProps =
                                       map (\<lambda>(n, init).
                                              t_objectProperty (t_identifier n)
                                                (if truthy init then init else t_nullLiteral)
                                                False False)
                                           localStateVars
                                 in Returns
                                      (w, (buildCtxUseStateDeclaration node' (st w) objProps key,
                                           snd p)))))"

definition functionDeclarationExit ::
  "env \<Rightarrow> world \<Rightarrow> path \<Rightarrow> (world \<times> path) outcome" where
  "functionDeclarationExit env w p = try_catch (functionDeclarationExit_try env w p) Returns"

section \<open>visitors/Program\<close>

text \<open>
  \<open>importStateResolver(path, state, t)\<close>: \<open>None\<close> when the scan throws, and then
  \<open>state.importState\<close> keeps its old value.
\<close>

fun resolveSpecifiers :: "jsval list \<Rightarrow> import_state \<Rightarrow> import_state option" where
  "resolveSpecifiers [] imp = Some imp"
| "resolveSpecifiers (spec # specs) imp =
     (let imp1 = (if isType ''ImportDefaultSpecifier'' spec
                  then imp \<lparr> reactId := ogetp spec ''local'', isDefault := True \<rparr>
                  else imp)
      in (case (if isType ''ImportSpecifier'' spec
                then (case getp (ogetp spec ''imported'') ''name'' of
                        None \<Rightarrow> None
                      | Some n \<Rightarrow>
                          Some (if n = JStr REACT_IMPORT_USE_STATE_HOOKS_NAME
                                then imp1 \<lparr> useStateId := ogetp spec ''local'',
                                            isNamed := True \<rparr>
                                else imp1))
                else Some imp1) of
            None \<Rightarrow> None
          | Some imp2 \<Rightarrow>
              resolveSpecifiers specs
                (if isType ''ImportNamespaceSpecifier'' spec
                 then imp2 \<lparr> reactId := ogetp spec ''local'', isNamespace := True \<rparr>
                 else imp2)))"

fun resolveImports :: "jsval list \<Rightarrow> import_state \<Rightarrow> import_state option" where
  "resolveImports [] imp = Some imp"
| "resolveImports (node # nodes) imp =
     (if \<not> isType ''ImportDeclaration'' node then resolveImports nodes imp
      else (case getp (ogetp node ''source'') ''value'' of
              None \<Rightarrow> None
            | Some src \<Rightarrow>
                if src \<noteq> JStr REACT_IMPORT_CORE_NAME then resolveImports nodes imp
                else (case ogetp node ''specifiers'' of
                        JArr specs \<Rightarrow>
                          (case resolveSpecifiers specs (imp \<lparr> reactImportPath := node \<rparr>) of
                             None \<Rightarrow> None
                           | Some imp' \<Rightarrow> resolveImports nodes imp')
                      | _ \<Rightarrow> None)))"

definition importStateResolver :: "jsval \<Rightarrow> plugin_state \<Rightarrow> plugin_state" where
  "importStateResolver program s =
     (case ogetp program CCTX_BODY of
        JArr nodes \<Rightarrow>
          (case resolveImports nodes
                  \<lparr> reactId = JNull, useStateId = JNull, isDefault = False, isNamed = False,
                    isNamespace = False, reactImportPath = JNull \<rparr> of
             None \<Rightarrow> s
           | Some imp \<Rightarrow> s \<lparr> importState := Some imp \<rparr>)
      | _ \<Rightarrow> s)"

definition resetRegisteryProcess :: "env \<Rightarrow> world \<Rightarrow> world" where
  "resetRegisteryProcess env w =
     (if \<not> isExcludeFile env (fileName_of (st w)) (opts (st w)) then w
      else w \<lparr> registry :=
                 resetVarsForFile (registry w)
                   (getFilePathHASH env (fileName_of (st w))) \<rparr>)"

definition programEnter_try ::
  "env \<Rightarrow> casper_config \<Rightarrow> world \<Rightarrow> path \<Rightarrow> (world \<times> path) outcome" where
  "programEnter_try env config w p =
     (let w1 = w \<lparr> st := (st w) \<lparr> casperConfig := Some config \<rparr> \<rparr>;
          w2 = w1 \<lparr> st := importStateResolver (fst p) (st w1) \<rparr>
      in Returns (resetRegisteryProcess env w2, p))"

definition programEnter ::
  "env \<Rightarrow> casper_config \<Rightarrow> world \<Rightarrow> path \<Rightarrow> (world \<times> path) outcome" where
  "programEnter env config w p = try_catch (programEnter_try env config w p) Returns"

text \<open>
  \<open>bindMissingImport(path, state, t)\<close> on the \<open>Program\<close> node: each missing binding is
  put first in the body with \<open>unshiftContainer\<close>.
\<close>

definition bindMissingImport :: "env \<Rightarrow> jsval \<Rightarrow> plugin_state \<Rightarrow> jsval" where
  "bindMissingImport env program s =
     (let program1 = (if needUseStateImport s
                      then buildRequireDeclaration program CCTX_UNDUS_CORE_REACT CCTX_REACT
                      else program)
      in if needsGblContext s
         then buildRequireDeclaration program1 CCTX_UNDUS_CORE_GBL_CONTEXT
                (CONTEXT_FILE_PATH env)
         else program1)"

definition programExit_try :: "env \<Rightarrow> world \<Rightarrow> path \<Rightarrow> (world \<times> path) outcome" where
  "programExit_try env w p = Returns (w, (bindMissingImport env (fst p) (st w), snd p))"

definition programExit :: "env \<Rightarrow> world \<Rightarrow> path \<Rightarrow> (world \<times> path) outcome" where
  "programExit env w p = try_catch (programExit_try env w p) Returns"

section \<open>The plugin and the traversal\<close>

text \<open>
  The visitor object of the plugin: \<open>Program\<close> on entry and exit, \<open>VariableDeclarator\<close>,
  \<open>AssignmentExpression\<close> and \<open>Identifier\<close> on entry, \<open>FunctionDeclaration\<close> on exit, and
  nothing else. Babel calls the handler registered for the type of the node.
\<close>

definition visitor_enter ::
  "env \<Rightarrow> casper_config \<Rightarrow> world \<Rightarrow> path \<Rightarrow> (world \<times> path) outcome" where
  "visitor_enter env config w p =
     (if isType ''Program'' (fst p) then programEnter env config w p
      else if isType ''VariableDeclarator'' (fst p) then variableDeclarationVisitor env w p
      else if isType ''AssignmentExpression'' (fst p) then assignmentExpressionVisitor env w p
      else if isType ''Identifier'' (fst p) then identifierVisitor env w p
      else Returns (w, p))"

definition visitor_exit :: "env \<Rightarrow> world \<Rightarrow> path \<Rightarrow> (world \<times> path) outcome" where
  "visitor_exit env w p =
     (if isType ''Program'' (fst p) then programExit env w p
      else if isType ''FunctionDeclaration'' (fst p) then functionDeclarationExit env w p
      else Returns (w, p))"

text \<open>
  Babel's traversal of one file, depth first: the entry handler of a node, its children
  in the order of their keys, the exit handler. A node that its entry handler replaced is
  queued again and visited as the new node. A visitor may change the frames above the
  node it visits; the walk goes on from the frames it gets back. Declarations that a
  handler inserts are not walked again (Babel queues them; the handlers of the plugin
  leave them as they are). The walk takes fuel, since a replacement may be replaced
  again: \<open>None\<close> is out of fuel, \<open>Some (Throws _)\<close> an exception that reaches Babel and
  ends the build. The three loops of the walk are the three tasks: \<open>Visit\<close> a node,
  walk the remaining properties of a node (\<open>Props\<close>: those done, those to do), walk the
  remaining elements of an array property (\<open>Elems\<close>).
\<close>

definition props_of :: "jsval \<Rightarrow> (string \<times> jsval) list" where
  "props_of v = (case v of JObj ps \<Rightarrow> ps | _ \<Rightarrow> [])"

datatype task =
    Visit path
  | Props "(string \<times> jsval) list" "(string \<times> jsval) list" "frame list"
  | Elems "(string \<times> jsval) list" string "jsval list" "jsval list" "(string \<times> jsval) list" "frame list"

fun walk :: "env \<Rightarrow> casper_config \<Rightarrow> nat \<Rightarrow> world \<Rightarrow> task \<Rightarrow> (world \<times> path) outcome option" where
  "walk env config 0 w t = None"
| "walk env config (Suc n) w t =
     (case t of
        Visit p \<Rightarrow>
          (case visitor_enter env config w p of
             Throws x \<Rightarrow> Some (Throws x)
           | Returns (w1, p1) \<Rightarrow>
               if fst p1 \<noteq> fst p then walk env config n w1 (Visit p1)
               else (case walk env config n w1 (Props [] (props_of (fst p1)) (snd p1)) of
                       None \<Rightarrow> None
                     | Some (Throws x) \<Rightarrow> Some (Throws x)
                     | Some (Returns (w2, p2)) \<Rightarrow> Some (visitor_exit env w2 p2)))
      | Props done todo fs \<Rightarrow>
          (case todo of
             [] \<Rightarrow> Some (Returns (w, (JObj done, fs)))
           | (k, c) # rest \<Rightarrow>
               if isNode c
               then (case walk env config n w (Visit (c, InProp done k rest # fs)) of
                       None \<Rightarrow> None
                     | Some (Throws x) \<Rightarrow> Some (Throws x)
                     | Some (Returns (w', (c', fs1))) \<Rightarrow>
                         (case fs1 of
                            InProp done' k' rest' # fs' \<Rightarrow>
                              walk env config n w' (Props (done' @ [(k', c')]) rest' fs')
                          | _ \<Rightarrow> None))
               else (case c of
                       JArr xs \<Rightarrow> walk env config n w (Elems done k [] xs rest fs)
                     | _ \<Rightarrow> walk env config n w (Props (done @ [(k, c)]) rest fs)))
      | Elems bef k l r aft fs \<Rightarrow>
          (case r of
             [] \<Rightarrow> walk env config n w (Props (bef @ [(k, JArr l)]) aft fs)
           | x # r' \<Rightarrow>
               if isNode x
               then (case walk env config n w (Visit (x, InList bef k l r' aft # fs)) of
                       None \<Rightarrow> None
                     | Some (Throws y) \<Rightarrow> Some (Throws y)
                     | Some (Returns (w', (x', fs1))) \<Rightarrow>
                         (case fs1 of
                            InList bef' k' l' r'' aft' # fs' \<Rightarrow>
                              walk env config n w' (Elems bef' k' (l' @ [x']) r'' aft' fs')
                          | _ \<Rightarrow> None))
               else walk env config n w (Elems bef k (l @ [x]) r' aft fs)))"

text \<open>The pass over one file: the traversal of its \<open>Program\<close> node.\<close>

definition transformFile ::
  "env \<Rightarrow> casper_config \<Rightarrow> nat \<Rightarrow> world \<Rightarrow> jsval \<Rightarrow> (world \<times> jsval) outcome option" where
  "transformFile env config fuel w program =
     (case walk env config fuel w (Visit (program, [])) of
        None \<Rightarrow> None
      | Some (Throws (w', p')) \<Rightarrow> Some (Throws (w', fst p'))
      | Some (Returns (w', p')) \<Rightarrow> Some (Returns (w', fst p')))"

section \<open>lifecycle/pre and lifecycle/post\<close>

text \<open>
  The file system the lifecycle hooks write to is a value of a type \<^typ>\<open>'f\<close>; what the code
  takes from \<open>fs\<close> and \<open>path\<close> are the operations below, each of which may throw (\<open>None\<close>):
  \<open>fs.mkdirSync(dir, { recursive: true })\<close>, \<open>fs.writeFileSync(file, data, 'utf8')\<close>,
  \<open>fs.writeFileSync(file, data, { flag: 'wx' })\<close>, which throws when the file exists,
  \<open>fs.readFileSync(file, 'utf8')\<close>, \<open>fs.utimesSync(file, new Date(), new Date())\<close>,
  and \<open>path.dirname\<close> and the resolved \<open>ESLINT_GLOBAL_JS_PATH\<close>.
\<close>

record 'f fsapi =
  mkdirSync :: "'f \<Rightarrow> string \<Rightarrow> 'f option"
  writeFileSync :: "'f \<Rightarrow> string \<Rightarrow> string \<Rightarrow> 'f option"
  writeFileSync_wx :: "'f \<Rightarrow> string \<Rightarrow> string \<Rightarrow> 'f option"
  readFileSync :: "'f \<Rightarrow> string \<Rightarrow> string option"
  utimesSync :: "'f \<Rightarrow> string \<Rightarrow> 'f option"
  path_dirname :: "string \<Rightarrow> string"
  ESLINT_GLOBAL_JS_PATH :: string

definition ESLINT_RC_FILE :: string where "ESLINT_RC_FILE = ''.eslintrc.js''"
definition CASPER_READ_ONLY_TYPE :: string where "CASPER_READ_ONLY_TYPE = ''readonly''"
definition CCTX_UNDEFINED :: string where "CCTX_UNDEFINED = ''undefined''"

text \<open>The characters a string literal of the theory cannot hold.\<close>

definition nl :: string where "nl = [CHR 0x0A]"
definition apostrophe :: string where "apostrophe = [CHR 0x27]"
definition dquote :: string where "dquote = [CHR 0x22]"
definition backslash :: string where "backslash = [CHR 0x5C]"

text \<open>\<open>Array.prototype.join\<close> on strings.\<close>

fun join :: "string \<Rightarrow> string list \<Rightarrow> string" where
  "join sep [] = []"
| "join sep [x] = x"
| "join sep (x # y # xs) = x @ sep @ join sep (y # xs)"

text \<open>
  \<open>JSON.stringify(v)\<close> for a value that is not \<open>undefined\<close>: a string is quoted with the
  escapes of \<open>QuoteJSONString\<close>, \<open>undefined\<close> in an array prints as \<open>null\<close>, a property
  whose value is \<open>undefined\<close> is left out.
\<close>

definition hex_char :: "nat \<Rightarrow> char" where
  "hex_char d = (''0123456789abcdef'' ! d)"

definition json_escape :: "char \<Rightarrow> string" where
  "json_escape c =
     (if c = CHR 0x22 then backslash @ dquote
      else if c = CHR 0x5C then backslash @ backslash
      else if c = CHR 0x08 then backslash @ ''b''
      else if c = CHR 0x0C then backslash @ ''f''
      else if c = CHR 0x0A then backslash @ ''n''
      else if c = CHR 0x0D then backslash @ ''r''
      else if c = CHR 0x09 then backslash @ ''t''
      else if (of_char c :: nat) < 32
      then backslash @ ''u00'' @ [hex_char (of_char c div 16), hex_char (of_char c mod 16)]
      else [c])"

definition json_quote :: "string \<Rightarrow> string" where
  "json_quote s = dquote @ concat (map json_escape s) @ dquote"

fun json_stringify :: "jsval \<Rightarrow> string"
  and json_elements :: "jsval list \<Rightarrow> string list"
  and json_members :: "(string \<times> jsval) list \<Rightarrow> string list" where
  "json_stringify JUndefined = ''undefined''"
| "json_stringify JNull = ''null''"
| "json_stringify (JBool b) = (if b then ''true'' else ''false'')"
| "json_stringify (JNum m k) = number_toString m k"
| "json_stringify (JStr s) = json_quote s"
| "json_stringify (JArr xs) = ''['' @ join '','' (json_elements xs) @ '']''"
| "json_stringify (JObj ps) = ''{'' @ join '','' (json_members ps) @ ''}''"
| "json_elements [] = []"
| "json_elements (x # xs) =
     (if x = JUndefined then ''null'' else json_stringify x) # json_elements xs"
| "json_members [] = []"
| "json_members ((k, v) # ps) =
     (if v = JUndefined then json_members ps
      else (json_quote k @ '':'' @ json_stringify v) # json_members ps)"

subsection \<open>lifecycle/pre\<close>

definition createScopeContext_try :: "'f fsapi \<Rightarrow> env \<Rightarrow> 'f \<Rightarrow> 'f outcome" where
  "createScopeContext_try api env f =
     (case mkdirSync api f (path_dirname api (CONTEXT_FILE_PATH env)) of
        None \<Rightarrow> Throws f
      | Some f1 \<Rightarrow>
          (case writeFileSync_wx api f1 (CONTEXT_FILE_PATH env) [] of
             None \<Rightarrow> Throws f1
           | Some f2 \<Rightarrow> Returns f2))"

definition createScopeContext :: "'f fsapi \<Rightarrow> env \<Rightarrow> 'f \<Rightarrow> 'f outcome" where
  "createScopeContext api env f = try_catch (createScopeContext_try api env f) Returns"

definition preProcess :: "'f fsapi \<Rightarrow> env \<Rightarrow> 'f \<Rightarrow> 'f outcome" where
  "preProcess api env f = try_catch (createScopeContext api env f) Returns"

subsection \<open>lifecycle/post\<close>

text \<open>
  \<open>generateContextContent(virtualRegistry)\<close>. The entries without a \<open>ctxName\<close> are left
  out; the name of a context is its \<open>ctxName\<close> without the first \<open>_$_ctx_\<close>.
\<close>

definition hasCtxName :: "jsval entry \<Rightarrow> bool" where
  "hasCtxName e = (case ctxName e of None \<Rightarrow> False | Some c \<Rightarrow> c \<noteq> [])"

definition contextNameOf :: "jsval entry \<Rightarrow> string" where
  "contextNameOf e =
     (case ctxName e of None \<Rightarrow> [] | Some c \<Rightarrow> replace_first c CCTX_CMP_NAME_PREFIX)"

definition defaultObjProps :: "jsval entry \<Rightarrow> string" where
  "defaultObjProps e =
     join ('','' @ nl)
       (map (\<lambda>name.
               ''  '' @ name @ '': ''
               @ (case map_of (defaults e) name of
                    None \<Rightarrow> CCTX_UNDEFINED
                  | Some v \<Rightarrow> if v \<noteq> JUndefined then json_stringify v else CCTX_UNDEFINED))
            (varNames e))"

definition contextContent :: "jsval registry \<Rightarrow> string" where
  "contextContent virtualRegistry =
     (let entries = filter hasCtxName (map snd virtualRegistry);
          contextNames = map contextNameOf entries
      in apostrophe @ ''use strict'' @ apostrophe @ '';'' @ nl @ nl
         @ ''Object.defineProperty(exports, '' @ apostrophe @ ''__esModule'' @ apostrophe
         @ '', {'' @ nl @ ''  value: true'' @ nl @ ''});'' @ nl
         @ ''exports.'' @ join '' = exports.'' contextNames @ '' = void 0;'' @ nl
         @ ''var _react = require('' @ apostrophe @ ''react'' @ apostrophe @ '');'' @ nl
         @ concat (map (\<lambda>e. ''const '' @ contextNameOf e @ '' = exports.'' @ contextNameOf e
                            @ '' = /*#__PURE__*/(0, _react.createContext)({'' @ nl
                            @ defaultObjProps e @ nl @ ''});'' @ nl)
                       entries))"

definition generateContextContent_try :: "'f fsapi \<Rightarrow> env \<Rightarrow> jsval registry \<Rightarrow> 'f \<Rightarrow> 'f outcome" where
  "generateContextContent_try api env virtualRegistry f =
     (case writeFileSync api f (CONTEXT_FILE_PATH env) [] of
        None \<Rightarrow> Throws f
      | Some f1 \<Rightarrow>
          if virtualRegistry = [] then Returns f1
          else (case writeFileSync api f1 (CONTEXT_FILE_PATH env)
                       (contextContent virtualRegistry) of
                  None \<Rightarrow> Throws f1
                | Some f2 \<Rightarrow> Returns f2))"

definition generateContextContent :: "'f fsapi \<Rightarrow> env \<Rightarrow> jsval registry \<Rightarrow> 'f \<Rightarrow> 'f outcome" where
  "generateContextContent api env virtualRegistry f =
     try_catch (generateContextContent_try api env virtualRegistry f) Returns"

text \<open>\<open>generateLintGlobalJS(virtualRegistry, prevVirtualRegistrySnap)\<close>.\<close>

definition lintContent :: "jsval registry \<Rightarrow> string" where
  "lintContent virtualRegistry =
     ''// ****** generated by CasperContext ******'' @ nl
     @ ''module.exports = {'' @ nl
     @ join ('','' @ nl)
         (map (\<lambda>name. ''  '' @ dquote @ name @ dquote @ '': ''
                       @ dquote @ CASPER_READ_ONLY_TYPE @ dquote)
              (concat (map (\<lambda>e. varNames (snd e)) virtualRegistry)))
     @ nl @ ''};'' @ nl"

definition generateLintGlobalJS_try :: "'f fsapi \<Rightarrow> env \<Rightarrow> jsval registry \<Rightarrow> 'f \<Rightarrow> 'f outcome" where
  "generateLintGlobalJS_try api env virtualRegistry f =
     (if virtualRegistry = [] then Returns f
      else (case readFileSync api f (ESLINT_GLOBAL_JS_PATH api) of
              None \<Rightarrow> Throws f
            | Some currentCnt \<Rightarrow>
                if currentCnt = lintContent virtualRegistry then Returns f
                else (case writeFileSync api f (ESLINT_GLOBAL_JS_PATH api) [] of
                        None \<Rightarrow> Throws f
                      | Some f1 \<Rightarrow>
                          (case writeFileSync api f1 (ESLINT_GLOBAL_JS_PATH api)
                                  (lintContent virtualRegistry) of
                             None \<Rightarrow> Throws f1
                           | Some f2 \<Rightarrow>
                               (case utimesSync api f2
                                       (path_join env (cwd env) ESLINT_RC_FILE) of
                                  None \<Rightarrow> Throws f2
                                | Some f3 \<Rightarrow> Returns f3)))))"

definition generateLintGlobalJS :: "'f fsapi \<Rightarrow> env \<Rightarrow> jsval registry \<Rightarrow> 'f \<Rightarrow> 'f outcome" where
  "generateLintGlobalJS api env virtualRegistry f =
     try_catch (generateLintGlobalJS_try api env virtualRegistry f) Returns"

text \<open>\<open>postProcess(file, t, virtualRegistry, prevVirtualRegistrySnap)\<close>.\<close>

definition postProcess_try :: "'f fsapi \<Rightarrow> env \<Rightarrow> jsval registry \<Rightarrow> 'f \<Rightarrow> 'f outcome" where
  "postProcess_try api env virtualRegistry f =
     (case generateContextContent api env virtualRegistry f of
        Throws f1 \<Rightarrow> Throws f1
      | Returns f1 \<Rightarrow> generateLintGlobalJS api env virtualRegistry f1)"

definition postProcess :: "'f fsapi \<Rightarrow> env \<Rightarrow> jsval registry \<Rightarrow> 'f \<Rightarrow> 'f outcome" where
  "postProcess api env virtualRegistry f =
     try_catch (postProcess_try api env virtualRegistry f) Returns"

section \<open>Parsed programs\<close>

text \<open>
  The nodes Babel's parser gives for the source texts used below. A parsed identifier
  carries its offset in the file.
\<close>

definition p_identifier :: "int \<Rightarrow> string \<Rightarrow> jsval" where
  "p_identifier pos name =
     JObj [(''type'', JStr ''Identifier''), (''start'', JInt pos), (''name'', JStr name)]"

definition p_program :: "jsval list \<Rightarrow> jsval" where
  "p_program body = JObj [(''type'', JStr ''Program''), (''body'', JArr body)]"

definition p_block :: "jsval list \<Rightarrow> jsval" where
  "p_block body = JObj [(''type'', JStr ''BlockStatement''), (''body'', JArr body)]"

definition p_function :: "jsval \<Rightarrow> jsval list \<Rightarrow> jsval" where
  "p_function ident body =
     JObj [(''type'', JStr ''FunctionDeclaration''), (''id'', ident), (''params'', JArr []),
           (''body'', p_block body)]"

definition p_arrow :: "jsval list \<Rightarrow> jsval" where
  "p_arrow body =
     JObj [(''type'', JStr ''ArrowFunctionExpression''), (''params'', JArr []),
           (''body'', p_block body)]"

definition p_declaration :: "string \<Rightarrow> jsval \<Rightarrow> jsval \<Rightarrow> jsval" where
  "p_declaration kind ident init =
     JObj [(''type'', JStr ''VariableDeclaration''), (''kind'', JStr kind),
           (''declarations'',
            JArr [JObj [(''type'', JStr ''VariableDeclarator''), (''id'', ident),
                        (''init'', init)]])]"

definition p_return :: "jsval \<Rightarrow> jsval" where
  "p_return argument = JObj [(''type'', JStr ''ReturnStatement''), (''argument'', argument)]"

definition p_assignment :: "jsval \<Rightarrow> jsval \<Rightarrow> jsval" where
  "p_assignment left right =
     JObj [(''type'', JStr ''AssignmentExpression''), (''operator'', JStr ''=''),
           (''left'', left), (''right'', right)]"

definition p_expressionStatement :: "jsval \<Rightarrow> jsval" where
  "p_expressionStatement expression =
     JObj [(''type'', JStr ''ExpressionStatement''), (''expression'', expression)]"

definition p_jsxElement :: "string \<Rightarrow> jsval list \<Rightarrow> jsval" where
  "p_jsxElement tag children =
     JObj [(''type'', JStr ''JSXElement''),
           (''openingElement'',
            JObj [(''type'', JStr ''JSXOpeningElement''),
                  (''name'', JObj [(''type'', JStr ''JSXIdentifier''), (''name'', JStr tag)]),
                  (''attributes'', JArr [])]),
           (''closingElement'',
            JObj [(''type'', JStr ''JSXClosingElement''),
                  (''name'', JObj [(''type'', JStr ''JSXIdentifier''), (''name'', JStr tag)])]),
           (''children'', JArr children)]"

definition p_jsxExpressionContainer :: "jsval \<Rightarrow> jsval" where
  "p_jsxExpressionContainer expression =
     JObj [(''type'', JStr ''JSXExpressionContainer''), (''expression'', expression)]"

lemmas parsed_defs =
  p_identifier_def p_program_def p_block_def p_function_def p_arrow_def p_declaration_def
  p_return_def p_assignment_def p_expressionStatement_def p_jsxElement_def
  p_jsxExpressionContainer_def

subsection \<open>Results and generated statements\<close>

text \<open>The statement \<open>var identifier = require(stringLiteral)\<close>.\<close>

definition requireDeclaration :: "string \<Rightarrow> string \<Rightarrow> jsval" where
  "requireDeclaration identifier stringLiteral =
     t_variableDeclaration ''var''
       [t_variableDeclarator (t_identifier identifier)
          (t_callExpression (t_identifier ''require'') [t_stringLiteral stringLiteral])]"

text \<open>The tree a run leaves behind (\<open>undefined\<close> when the walk ran out of fuel).\<close>

definition outputOf :: "(world \<times> jsval) outcome option \<Rightarrow> jsval" where
  "outputOf r = (case r of None \<Rightarrow> JUndefined | Some out \<Rightarrow> snd (final out))"

definition registryOf :: "(world \<times> jsval) outcome option \<Rightarrow> jsval registry" where
  "registryOf r = (case r of None \<Rightarrow> [] | Some out \<Rightarrow> registry (fst (final out)))"

definition resultOf :: "(world \<times> jsval) outcome option \<Rightarrow> jsval \<times> jsval registry" where
  "resultOf r = (outputOf r, registryOf r)"

text \<open>\<open>occurs x v\<close>: the value \<open>x\<close> is \<open>v\<close> or sits somewhere inside \<open>v\<close>.\<close>

fun occurs :: "jsval \<Rightarrow> jsval \<Rightarrow> bool" where
  "occurs x (JArr xs) = (x = JArr xs \<or> list_ex (occurs x) xs)"
| "occurs x (JObj ps) = (x = JObj ps \<or> list_ex (occurs x) (map snd ps))"
| "occurs x v = (x = v)"

fun occurs_any :: "jsval list \<Rightarrow> jsval \<Rightarrow> bool" where
  "occurs_any [] v = False"
| "occurs_any (x # xs) v = (occurs x v \<or> occurs_any xs v)"

text \<open>
  The generated statements, with the fallback React binding \<open>_react\<close>:
  \<open>const [lkey, setter] = (0, _react.useState)({ props })\<close> and
  \<open>_react.createElement(_gblContext.key.Provider, { value: { lkey, setter } }, child)\<close>.
\<close>

definition stateDeclaration :: "string \<Rightarrow> string \<Rightarrow> jsval list \<Rightarrow> jsval" where
  "stateDeclaration lkey setter properties =
     t_variableDeclaration ''const''
       [t_variableDeclarator
          (t_arrayPattern [t_identifier lkey, t_identifier setter])
          (t_callExpression
             (t_sequenceExpression
                [t_numericLiteral 0,
                 t_memberExpression (t_identifier ''_react'') (t_identifier ''useState'') False])
             [t_objectExpression properties])]"

definition providerCall :: "string \<Rightarrow> string \<Rightarrow> string \<Rightarrow> jsval \<Rightarrow> jsval" where
  "providerCall key lkey setter child =
     t_callExpression
       (t_memberExpression (t_identifier ''_react'') (t_identifier ''createElement'') False)
       [t_memberExpression
          (t_memberExpression (t_identifier ''_gblContext'') (t_identifier key) False)
          (t_identifier ''Provider'') False,
        t_objectExpression
          [t_objectProperty (t_identifier ''value'')
             (t_objectExpression
                [t_objectProperty (t_identifier lkey) (t_identifier lkey) False True,
                 t_objectProperty (t_identifier setter) (t_identifier setter) False True])
             False False],
        child]"

definition requires :: "jsval list" where
  "requires =
     [requireDeclaration ''_gblContext'' ''/proj/src/scopeContext/gblContext.js'',
      requireDeclaration ''_react'' ''react'']"

subsection \<open>Runs\<close>

text \<open>
  A run of the plugin: a project at \<open>/proj\<close>, a file whose path hashes to a digest that
  starts with \<open>ab12cd34\<close>, the default prefix, no plugin options, and a file that does
  not import React.
\<close>

text \<open>
  The fields that \<open>@babel/types\<close> validates and does not mark optional, for the node
  types that can hold a statement or a declaration under a key of its own (and for the
  declarator and the functions).
\<close>

definition requiredField_babel :: "string \<Rightarrow> string \<Rightarrow> bool" where
  "requiredField_babel T key =
     ((T, key) \<in> set
        [(''ForStatement'', ''body''),
         (''ForInStatement'', ''left''), (''ForInStatement'', ''right''),
         (''ForInStatement'', ''body''),
         (''ForOfStatement'', ''left''), (''ForOfStatement'', ''right''),
         (''ForOfStatement'', ''body''),
         (''WhileStatement'', ''test''), (''WhileStatement'', ''body''),
         (''DoWhileStatement'', ''test''), (''DoWhileStatement'', ''body''),
         (''IfStatement'', ''test''), (''IfStatement'', ''consequent''),
         (''LabeledStatement'', ''label''), (''LabeledStatement'', ''body''),
         (''WithStatement'', ''object''), (''WithStatement'', ''body''),
         (''SwitchStatement'', ''discriminant''), (''ThrowStatement'', ''argument''),
         (''TryStatement'', ''block''), (''CatchClause'', ''body''),
         (''ExpressionStatement'', ''expression''),
         (''ExportDefaultDeclaration'', ''declaration''),
         (''VariableDeclarator'', ''id''),
         (''FunctionDeclaration'', ''body''), (''FunctionExpression'', ''body''),
         (''ArrowFunctionExpression'', ''body'')])"

definition env0 :: "bool \<Rightarrow> env" where
  "env0 strict =
     \<lparr> cwd = ''/proj'', path_join = (\<lambda>a b. a @ ''/'' @ b),
       md5hex = (\<lambda>f. Some ''ab12cd34ef567890ab12cd34ef567890''),
       CONTEXT_FILE_PATH = ''/proj/src/scopeContext/gblContext.js'',
       isReferencedIdentifier = isReferenced_babel, requiredField = requiredField_babel,
       strictMode = strict \<rparr>"

definition config0 :: casper_config where
  "config0 = \<lparr> cfg_prefix = ''_$_'', debug = False \<rparr>"

definition noReactImport :: import_state where
  "noReactImport =
     \<lparr> reactId = JNull, useStateId = JNull, isDefault = False, isNamed = False,
       isNamespace = False, reactImportPath = JNull \<rparr>"

text \<open>The plugin state when a file is entered, and after \<open>programEnter\<close>.\<close>

definition state_start :: "string \<Rightarrow> plugin_state" where
  "state_start file =
     \<lparr> filename = Some file, opts = None, casperConfig = None, importState = None,
       needsGblContext = False, needUseStateImport = False \<rparr>"

definition state_entered :: "string \<Rightarrow> plugin_state" where
  "state_entered file =
     \<lparr> filename = Some file, opts = None, casperConfig = Some config0,
       importState = Some noReactImport,
       needsGblContext = False, needUseStateImport = False \<rparr>"

definition entry_of :: "string \<Rightarrow> string list \<Rightarrow> (string \<times> jsval) list \<Rightarrow> string \<times> jsval entry" where
  "entry_of key names ds =
     (key, \<lparr> varNames = names, ctxName = Some (CCTX_CMP_NAME_PREFIX @ key), defaults = ds \<rparr>)"

lemmas run_defs =
  env0_def requiredField_babel_def config0_def noReactImport_def state_start_def
  state_entered_def entry_of_def

text \<open>The definitions a concrete run unfolds.\<close>

lemmas eval_defs =
  identifierVisitor_def identifierVisitor_try_def
  assignmentExpressionVisitor_def assignmentExpressionVisitor_try_def
  isExcludeFile_def fileName_of_def constants_defs name_has_prefix_def ogetp_def startsWith_def
  skippedPosition_def isType_def isNode_def isJSXAncestor_def getRootParentComponent_def
  getFunctionParent_def isFunction_def name_of_function_def startsUpper_def isUpperAZ_def
  upperAZ_def lowerAZ_def findContextByName_def flagUseState_def replaceWithState_def
  replaceWithContextState_def toLowerCase_def toUpperCase_def builders_defs
  path_of_def path_get_def path_get_elem_def parsed_defs run_defs isReferenced_babel_def
  buildSpreadObject_def replaceWithSetState_def replaceWithContextSetState_def
  buildUseContextInstance_def getInheritantComponent_def isComponentFunction_def
  isContextInstanceDeclare_def getInsertionIndex_def resolveReact_def splice_body_def
  list_insert_def splice_value_def splice_block_def map_entry2_def Let_def

section \<open>Programs, paths and states of the properties\<close>

subsection \<open>Locality of a reference\<close>

text \<open>
  The file \<open>function App() { return _$_title; }\<close>, while the registry holds \<open>_$_title\<close>
  as declared by the owner \<open>AppHeader\<close>.
\<close>

definition appReadsTitle :: jsval where
  "appReadsTitle =
     p_program [p_function (p_identifier 9 ''App'') [p_return (p_identifier 24 ''_$_title'')]]"

definition headerRegistry :: "jsval registry" where
  "headerRegistry = [entry_of ''AppHeader_ab12cd34'' [''_$_title''] [(''_$_title'', JStr ''Hi'')]]"

definition readInApp :: path where
  "readInApp = path_of appReadsTitle
     [(''body'', Some 0), (''body'', None), (''body'', Some 0), (''argument'', None)]"

subsection \<open>Rewriting an assignment\<close>


text \<open>The file \<open>function Counter() { let _$_count = 0; _$_count = 5; }\<close>.\<close>

definition counterAssigns :: jsval where
  "counterAssigns =
     p_program [p_function (p_identifier 9 ''Counter'')
       [p_declaration ''let'' (p_identifier 25 ''_$_count'') (t_numericLiteral 0),
        p_expressionStatement
          (p_assignment (p_identifier 40 ''_$_count'') (t_numericLiteral 5))]]"

definition counterRegistry :: "jsval registry" where
  "counterRegistry = [entry_of ''Counter_ab12cd34'' [''_$_count''] [(''_$_count'', JInt 0)]]"

definition assignmentInCounter :: path where
  "assignmentInCounter = path_of counterAssigns
     [(''body'', Some 0), (''body'', None), (''body'', Some 1), (''expression'', None)]"

subsection \<open>Where a missing import goes\<close>

text \<open>
  The file \<open>'use strict'; function App() {}\<close> as Babel parses it: a directive is a
  \<open>Directive\<close> node in \<open>directives\<close>, not a statement of \<open>body\<close>.
\<close>

definition directive :: "string \<Rightarrow> jsval" where
  "directive v =
     JObj [(''type'', JStr ''Directive''),
           (''value'', JObj [(''type'', JStr ''DirectiveLiteral''), (''value'', JStr v)])]"

definition strictFile :: jsval where
  "strictFile =
     JObj [(''type'', JStr ''Program''), (''directives'', JArr [directive ''use strict'']),
           (''body'', JArr [p_function (p_identifier 23 ''App'') []])]"

text \<open>
  The statements of a file in the order of the file, which is the order in which
  \<open>@babel/generator\<close> prints a \<open>Program\<close>: its directives, then its body.
\<close>

definition fileStatements :: "jsval \<Rightarrow> jsval list" where
  "fileStatements program =
     (case ogetp program ''directives'' of JArr ds \<Rightarrow> ds | _ \<Rightarrow> [])
     @ (case ogetp program ''body'' of JArr body \<Rightarrow> body | _ \<Rightarrow> [])"

text \<open>The statements that \<open>bindMissingImport\<close> inserts for the flags of a state.\<close>

definition insertedRequires :: "env \<Rightarrow> plugin_state \<Rightarrow> jsval list" where
  "insertedRequires env s =
     (if needsGblContext s
      then [requireDeclaration ''_gblContext'' (CONTEXT_FILE_PATH env)] else [])
     @ (if needUseStateImport s then [requireDeclaration ''_react'' ''react''] else [])"

subsection \<open>A file from source to output\<close>

text \<open>The file \<open>function Counter() { let _$_count = 0; return _$_count; }\<close>.\<close>

definition counterFile :: jsval where
  "counterFile =
     p_program [p_function (p_identifier 9 ''Counter'')
       [p_declaration ''let'' (p_identifier 25 ''_$_count'') (t_numericLiteral 0),
        p_return (p_identifier 47 ''_$_count'')]]"

definition counterOutput :: jsval where
  "counterOutput =
     p_program
       (requires @
        [p_function (p_identifier 9 ''Counter'')
           [stateDeclaration ''counter_ab12cd34'' ''setCounter_ab12cd34''
              [t_objectProperty (t_identifier ''_$_count'') (t_numericLiteral 0) False False],
            p_return
              (providerCall ''Counter_ab12cd34'' ''counter_ab12cd34'' ''setCounter_ab12cd34''
                 (t_memberExpression (t_identifier ''counter_ab12cd34'')
                    (t_stringLiteral ''_$_count'') True))]])"

subsection \<open>Which identifiers are processed\<close>

text \<open>The file \<open>function CasperHero() { return <h1>{_$_appMessage}</h1>; }\<close>.\<close>

definition heroReadsMessage :: jsval where
  "heroReadsMessage =
     p_program [p_function (p_identifier 9 ''CasperHero'')
       [p_return (p_jsxElement ''h1''
          [p_jsxExpressionContainer (p_identifier 38 ''_$_appMessage'')])]]"

definition appRegistry :: "jsval registry" where
  "appRegistry = [entry_of ''App_ab12cd34'' [''_$_appMessage''] [(''_$_appMessage'', JStr ''Hi'')]]"

definition readInMarkupChild :: path where
  "readInMarkupChild = path_of heroReadsMessage
     [(''body'', Some 0), (''body'', None), (''body'', Some 0), (''argument'', None),
      (''children'', Some 0), (''expression'', None)]"

text \<open>
  The positions the visitor passes over: the four of \<open>skippedPosition\<close>, every position
  below a \<open>JSXExpressionContainer\<close>, \<open>JSXAttribute\<close>, \<open>JSXOpeningElement\<close>,
  \<open>JSXClosingElement\<close> or \<open>JSXMemberExpression\<close>, every position that Babel does not
  count as a reference, and a node that is in the \<open>seen\<close> set already.
\<close>

definition excludedPosition :: "env \<Rightarrow> world \<Rightarrow> path \<Rightarrow> bool" where
  "excludedPosition env w p =
     ((case snd p of [] \<Rightarrow> False | f # fs \<Rightarrow> skippedPosition (plug f (fst p)) (fkey f))
      \<or> findParent isJSXAncestor p \<noteq> None
      \<or> \<not> isReferencedIdentifier env p
      \<or> fst p \<in> seen w)"

subsection \<open>A component that is a function bound to a variable\<close>

text \<open>
  The file
  \<open>function Outer() { let _$_a = 1; const Inner = () => { let _$_b = 2; return 7; }; return 0; }\<close>
  and its output.
\<close>

definition outerInner :: jsval where
  "outerInner =
     p_program [p_function (p_identifier 9 ''Outer'')
       [p_declaration ''let'' (p_identifier 23 ''_$_a'') (t_numericLiteral 1),
        p_declaration ''const'' (p_identifier 40 ''Inner'')
          (p_arrow [p_declaration ''let'' (p_identifier 60 ''_$_b'') (t_numericLiteral 2),
                    p_return (t_numericLiteral 7)]),
        p_return (t_numericLiteral 0)]]"

definition outerInnerOutput :: jsval where
  "outerInnerOutput =
     p_program
       (requires @
        [p_function (p_identifier 9 ''Outer'')
           [stateDeclaration ''outer_ab12cd34'' ''setOuter_ab12cd34''
              [t_objectProperty (t_identifier ''_$_a'') (t_numericLiteral 1) False False,
               t_objectProperty (t_identifier ''_$_b'') (t_numericLiteral 2) False False],
            p_declaration ''const'' (p_identifier 40 ''Inner'')
              (p_arrow
                 [p_return
                    (providerCall ''Outer_ab12cd34'' ''outer_ab12cd34'' ''setOuter_ab12cd34''
                       (t_numericLiteral 7))]),
            p_return
              (providerCall ''Outer_ab12cd34'' ''outer_ab12cd34'' ''setOuter_ab12cd34''
                 (t_numericLiteral 0))]])"

text \<open>The file \<open>const App = () => { let _$_x = 1; return _$_x; }\<close> and its output.\<close>

definition arrowApp :: jsval where
  "arrowApp =
     p_program [p_declaration ''const'' (p_identifier 6 ''App'')
       (p_arrow [p_declaration ''let'' (p_identifier 24 ''_$_x'') (t_numericLiteral 1),
                 p_return (p_identifier 40 ''_$_x'')])]"

definition arrowAppOutput :: jsval where
  "arrowAppOutput =
     p_program
       (requires @
        [p_declaration ''const'' (p_identifier 6 ''App'')
           (p_arrow [p_declaration ''let'' (p_identifier 24 ''_$_x'') (t_numericLiteral 1),
                     p_return (t_memberExpression (t_identifier ''app_ab12cd34'')
                                 (t_stringLiteral ''_$_x'') True)])])"

definition declarationInArrow :: path where
  "declarationInArrow = path_of arrowApp
     [(''body'', Some 0), (''declarations'', Some 0), (''init'', None), (''body'', None),
      (''body'', Some 0), (''declarations'', Some 0)]"

subsection \<open>The collection at the exit of a function declaration\<close>

text \<open>
  The file
  \<open>function App() { let _$_a = 1; useEffect(function () { let _$_tmp = 2; return 3; }); return 0; }\<close>
  and the output of the pass.
\<close>

definition callbackOf :: "jsval list \<Rightarrow> jsval" where
  "callbackOf body =
     p_expressionStatement
       (t_callExpression (p_identifier 33 ''useEffect'')
          [JObj [(''type'', JStr ''FunctionExpression''), (''id'', JNull),
                 (''params'', JArr []), (''body'', p_block body)]])"

definition appWithCallback :: jsval where
  "appWithCallback =
     p_program [p_function (p_identifier 9 ''App'')
       [p_declaration ''let'' (p_identifier 21 ''_$_a'') (t_numericLiteral 1),
        callbackOf [p_declaration ''let'' (p_identifier 62 ''_$_tmp'') (t_numericLiteral 2),
                    p_return (t_numericLiteral 3)],
        p_return (t_numericLiteral 0)]]"

definition appWithCallbackOutput :: jsval where
  "appWithCallbackOutput =
     p_program
       (requires @
        [p_function (p_identifier 9 ''App'')
           [stateDeclaration ''app_ab12cd34'' ''setApp_ab12cd34''
              [t_objectProperty (t_identifier ''_$_a'') (t_numericLiteral 1) False False,
               t_objectProperty (t_identifier ''_$_tmp'') (t_numericLiteral 2) False False],
            callbackOf
              [p_return (providerCall ''App_ab12cd34'' ''app_ab12cd34'' ''setApp_ab12cd34''
                           (t_numericLiteral 3))],
            p_return (providerCall ''App_ab12cd34'' ''app_ab12cd34'' ''setApp_ab12cd34''
                        (t_numericLiteral 0))]])"

text \<open>
  The functions \<open>function F() { for (const _$_k in o) {} }\<close> and
  \<open>function G() { if (c) var _$_x = 1; }\<close>, and the default
  \<open>{ b: 1, 2: 1.5, 1: 'x' }\<close> of a declarator.
\<close>

definition forInFunction :: jsval where
  "forInFunction =
     p_function (p_identifier 9 ''F'')
       [JObj [(''type'', JStr ''ForInStatement''),
              (''left'', p_declaration ''const'' (p_identifier 24 ''_$_k'') JNull),
              (''right'', p_identifier 32 ''o''),
              (''body'', p_block [])]]"

definition ifFunction :: "jsval \<Rightarrow> jsval" where
  "ifFunction consequent =
     p_function (p_identifier 9 ''G'')
       [JObj [(''type'', JStr ''IfStatement''), (''test'', p_identifier 19 ''c''),
              (''consequent'', consequent), (''alternate'', JNull)]]"

definition objectDefault :: jsval where
  "objectDefault =
     t_variableDeclarator (p_identifier 4 ''_$_o'')
       (t_objectExpression
          [t_objectProperty (t_identifier ''b'') (t_numericLiteral 1) False False,
           t_objectProperty (t_numericLiteral 2)
             (JObj [(''type'', JStr ''NumericLiteral''), (''value'', JNum 15 1)]) False False,
           t_objectProperty (t_numericLiteral 1) (t_stringLiteral ''x'') False False])"

subsection \<open>Failures inside the pass\<close>

text \<open>
  An environment whose digest fails, a file system on which every operation throws, and
  a world whose \<open>importState\<close> is \<open>undefined\<close> (the import scan has failed), the registry
  holding the variables of \<open>counterAssigns\<close> and \<open>appReadsTitle\<close>.
\<close>

definition noDigestEnv :: env where
  "noDigestEnv = (env0 True) \<lparr> md5hex := \<lambda>f. None \<rparr>"

definition failingFs :: "unit fsapi" where
  "failingFs =
     \<lparr> mkdirSync = \<lambda>f d. None, writeFileSync = \<lambda>f file data. None,
       writeFileSync_wx = \<lambda>f file data. None, readFileSync = \<lambda>f file. None,
       utimesSync = \<lambda>f file. None, path_dirname = \<lambda>file. ''/proj/src/scopeContext'',
       ESLINT_GLOBAL_JS_PATH = ''/proj/casper-eslint.global.js'' \<rparr>"

definition unresolvedWorld :: world where
  "unresolvedWorld =
     \<lparr> st = (state_entered ''/proj/src/App.js'') \<lparr> importState := None \<rparr>,
       registry = counterRegistry @ headerRegistry, seen = {} \<rparr>"

section \<open>Registry properties\<close>

lemma map_of_append_new:
  "map_of reg k = None \<Longrightarrow> map_of (reg @ [(k, e)]) k = Some e"
  by (induction reg) (auto split: if_splits)






text \<open>
  C7. The per-file reset keeps every key in place, keeps every \<open>ctxName\<close>, empties
  \<open>varNames\<close> and \<open>defaults\<close> of the entries whose key ends with \<open>_H\<close>, and leaves every
  other entry as it was.
\<close>

theorem resetVarsForFile_frame:
  "length (resetVarsForFile reg H) = length reg
   \<and> (\<forall>i < length reg.
        fst (resetVarsForFile reg H ! i) = fst (reg ! i)
        \<and> ctxName (snd (resetVarsForFile reg H ! i)) = ctxName (snd (reg ! i))
        \<and> (if endsWith (fst (reg ! i)) (''_'' @ H)
           then varNames (snd (resetVarsForFile reg H ! i)) = []
                \<and> defaults (snd (resetVarsForFile reg H ! i)) = []
           else snd (resetVarsForFile reg H ! i) = snd (reg ! i)))"
  by (auto simp: resetVarsForFile_def split: prod.splits)

theorem resetVarsForFile_frame_witness:
  "let reg = [(''App_ab12cd34'',
                \<lparr> varNames = [''_$_msg''], ctxName = Some ''_$_ctx_App_ab12cd34'',
                  defaults = [(''_$_msg'', 1::int)] \<rparr>),
              (''Admin_00ff00ff'',
                \<lparr> varNames = [''_$_adminName''], ctxName = Some ''_$_ctx_Admin_00ff00ff'',
                  defaults = [(''_$_adminName'', 2)] \<rparr>)];
       reg' = resetVarsForFile reg ''ab12cd34''
   in (0::nat) < length reg \<and> 1 < length reg \<and> length reg' = 2
      \<and> endsWith (fst (reg ! 0)) (''_'' @ ''ab12cd34'')
      \<and> \<not> endsWith (fst (reg ! 1)) (''_'' @ ''ab12cd34'')
      \<and> fst (reg' ! 0) = ''App_ab12cd34''
      \<and> varNames (snd (reg' ! 0)) = [] \<and> defaults (snd (reg' ! 0)) = []
      \<and> ctxName (snd (reg' ! 0)) = Some ''_$_ctx_App_ab12cd34''
      \<and> reg' ! 1 = reg ! 1"
  using resetVarsForFile_frame
    [of "[(''App_ab12cd34'',
                \<lparr> varNames = [''_$_msg''], ctxName = Some ''_$_ctx_App_ab12cd34'',
                  defaults = [(''_$_msg'', 1::int)] \<rparr>),
              (''Admin_00ff00ff'',
                \<lparr> varNames = [''_$_adminName''], ctxName = Some ''_$_ctx_Admin_00ff00ff'',
                  defaults = [(''_$_adminName'', 2)] \<rparr>)]" "''ab12cd34''"]
  by (simp add: endsWith_def resetVarsForFile_def)

section \<open>Locality of a reference\<close>

text \<open>An owner's own scope key starts with the owner's name.\<close>

lemma own_key_startsWith: "startsWith (A @ ''_'' @ h) A"
  by (simp add: startsWith_def)

text \<open>
  C1. The visitor classifies by \<open>ctxName.startsWith(componentName)\<close>, a prefix test on
  the scope key, not by equality of owners. The reference to \<open>_$_title\<close> (declared by
  \<open>AppHeader\<close>) inside the root owner \<open>App\<close> is classified local: it is replaced by the
  access \<open>appHeader_ab12cd34["_$_title"]\<close> to a local state object that \<open>App\<close> does not
  have, and no context-read declaration is injected (the frames are unchanged).
\<close>

theorem identifierVisitor_owner_prefix_is_local:
  "findContextByVar ''_$_title'' headerRegistry = Some ''AppHeader_ab12cd34''
   \<and> map_option snd (getRootParentComponent readInApp) = Some (Some ''App'')
   \<and> identifierVisitor (env0 True)
        \<lparr> st = state_entered ''/proj/src/App.js'', registry = headerRegistry, seen = {} \<rparr>
        readInApp
      = Returns
          (\<lparr> st = (state_entered ''/proj/src/App.js'')
                     \<lparr> needsGblContext := True, needUseStateImport := True \<rparr>,
             registry = headerRegistry, seen = {p_identifier 24 ''_$_title''} \<rparr>,
           (t_memberExpression (t_identifier ''appHeader_ab12cd34'')
              (t_stringLiteral ''_$_title'') True,
            snd readInApp))"
  by (simp add: eval_defs appReadsTitle_def headerRegistry_def readInApp_def)

section \<open>Rewriting an assignment\<close>






section \<open>Where a missing import goes\<close>

lemma buildRequireDeclaration_body:
  assumes "ogetp (JObj ps) ''body'' = JArr body"
  shows "buildRequireDeclaration (JObj ps) v m
         = JObj (AList.update ''body'' (JArr (requireDeclaration v m # body)) ps)"
  using assms
  by (simp add: buildRequireDeclaration_def unshiftContainer_def requireDeclaration_def
      CCTX_BODY_def CCTX_VAR_def CCTX_REQUIRE_def)

lemma ogetp_update_same: "ogetp (JObj (AList.update k v ps)) k = v"
  by (simp add: ogetp_def update_conv')

lemma ogetp_update_other: "k' \<noteq> k \<Longrightarrow> ogetp (JObj (AList.update k v ps)) k' = ogetp (JObj ps) k'"
  by (simp add: ogetp_def update_conv')

text \<open>One \<open>require\<close> put first in the body leaves every other property of the file.\<close>

lemma buildRequireDeclaration_step:
  assumes "ogetp (JObj ps) ''body'' = JArr body"
  shows "\<exists>qs. buildRequireDeclaration (JObj ps) v m = JObj qs
           \<and> ogetp (JObj qs) ''body'' = JArr (requireDeclaration v m # body)
           \<and> ogetp (JObj qs) ''directives'' = ogetp (JObj ps) ''directives''"
  using buildRequireDeclaration_body [OF assms, of v m]
  by (simp add: ogetp_update_same ogetp_update_other)

lemma bindMissingImport_shape:
  assumes "ogetp (JObj ps) ''body'' = JArr body"
  shows "\<exists>qs. bindMissingImport env (JObj ps) s = JObj qs
           \<and> ogetp (JObj qs) ''body'' = JArr (insertedRequires env s @ body)
           \<and> ogetp (JObj qs) ''directives'' = ogetp (JObj ps) ''directives''"
proof (cases "needUseStateImport s")
  case True
  from buildRequireDeclaration_step [OF assms, of "''_react''" "''react''"]
  obtain qs where q: "buildRequireDeclaration (JObj ps) ''_react'' ''react'' = JObj qs"
    "ogetp (JObj qs) ''body'' = JArr (requireDeclaration ''_react'' ''react'' # body)"
    "ogetp (JObj qs) ''directives'' = ogetp (JObj ps) ''directives''"
    by blast
  show ?thesis
  proof (cases "needsGblContext s")
    case g: True
    from buildRequireDeclaration_step [OF q(2), of "''_gblContext''" "CONTEXT_FILE_PATH env"]
    show ?thesis
      using True g q
      by (auto simp: bindMissingImport_def insertedRequires_def CCTX_UNDUS_CORE_REACT_def
          CCTX_REACT_def CCTX_UNDUS_CORE_GBL_CONTEXT_def)
  next
    case False
    then show ?thesis
      using True q
      by (auto simp: bindMissingImport_def insertedRequires_def CCTX_UNDUS_CORE_REACT_def
          CCTX_REACT_def)
  qed
next
  case False
  show ?thesis
  proof (cases "needsGblContext s")
    case g: True
    from buildRequireDeclaration_step [OF assms, of "''_gblContext''" "CONTEXT_FILE_PATH env"]
    show ?thesis
      using False g
      by (auto simp: bindMissingImport_def insertedRequires_def CCTX_UNDUS_CORE_GBL_CONTEXT_def)
  next
    case g: False
    then show ?thesis
      using False assms
      by (auto simp: bindMissingImport_def insertedRequires_def)
  qed
qed

text \<open>
  C8. At file exit every injected \<open>require\<close> is put first in the body of the file
  (the shared-context binding, then the fallback React binding, then the old body). A
  directive such as \<open>'use strict'\<close> is not a statement of the body: the parser puts it
  in \<open>directives\<close>, which \<open>bindMissingImport\<close> leaves as they are and which come before
  the body in the file. So the inserted statements are at the top of the body and after
  every directive.
\<close>

theorem bindMissingImport_after_directives:
  assumes "ogetp (JObj ps) ''directives'' = JArr directives"
    and "ogetp (JObj ps) ''body'' = JArr body"
  shows "ogetp (bindMissingImport env (JObj ps) s) ''directives'' = JArr directives
       \<and> ogetp (bindMissingImport env (JObj ps) s) ''body''
         = JArr (insertedRequires env s @ body)
       \<and> fileStatements (bindMissingImport env (JObj ps) s)
         = directives @ insertedRequires env s @ body"
  using bindMissingImport_shape [OF assms(2), of env s] assms(1)
  by (auto simp: fileStatements_def)

text \<open>The file \<open>'use strict'; function App() {}\<close> with both bindings missing.\<close>

theorem bindMissingImport_after_directives_witness:
  "fileStatements strictFile = [directive ''use strict'', p_function (p_identifier 23 ''App'') []]
   \<and> fileStatements
        (bindMissingImport (env0 True) strictFile
           ((state_entered ''/proj/src/App.js'')
              \<lparr> needsGblContext := True, needUseStateImport := True \<rparr>))
      = [directive ''use strict'',
         requireDeclaration ''_gblContext'' ''/proj/src/scopeContext/gblContext.js'',
         requireDeclaration ''_react'' ''react'',
         p_function (p_identifier 23 ''App'') []]"
  using bindMissingImport_after_directives
    [of "[(''type'', JStr ''Program''), (''directives'', JArr [directive ''use strict'']),
          (''body'', JArr [p_function (p_identifier 23 ''App'') []])]"
        "[directive ''use strict'']"
        "[p_function (p_identifier 23 ''App'') []]"
        "env0 True"
        "(state_entered ''/proj/src/App.js'')
           \<lparr> needsGblContext := True, needUseStateImport := True \<rparr>"]
  by (simp add: strictFile_def fileStatements_def insertedRequires_def ogetp_def env0_def
      state_entered_def)

section \<open>A file from source to output\<close>

text \<open>
  C3, as the claim states it, fails: the output of the file holds no binding
  \<open>[counter, setCounter]\<close>, no initializer \<open>{ count: 0 }\<close> and no access
  \<open>counter["count"]\<close>.
\<close>

theorem counter_scenario_counterexample:
  "\<not> occurs_any
       [t_arrayPattern [t_identifier ''counter'', t_identifier ''setCounter''],
        t_objectExpression
          [t_objectProperty (t_identifier ''count'') (t_numericLiteral 0) False False],
        t_memberExpression (t_identifier ''counter'') (t_stringLiteral ''count'') True]
       (outputOf (transformFile (env0 True) config0 40
          \<lparr> st = state_start ''/proj/src/Counter.js'', registry = [], seen = {} \<rparr>
          counterFile))"
  by code_simp

text \<open>
  C3, amended. The pass over the file returns, and in its output the body of \<open>Counter\<close>
  starts with the one local-state declaration, bound as
  \<open>[counter_ab12cd34, setCounter_ab12cd34]\<close> (the scope key \<open>Counter_<fileHash>\<close>, first
  letter lowered, and \<open>set\<close> followed by the scope key) with the initializer
  \<open>{ _$_count: 0 }\<close>; the declaration \<open>let _$_count = 0\<close> is gone; the read is
  \<open>counter_ab12cd34["_$_count"]\<close>, the prefixed name being the key; the returned value is
  wrapped in the provider of \<open>Counter_ab12cd34\<close>; and both \<open>require\<close> statements are put
  first in the file.
\<close>

theorem counter_scenario:
  "transformFile (env0 True) config0 40
     \<lparr> st = state_start ''/proj/src/Counter.js'', registry = [], seen = {} \<rparr> counterFile
   = Some (Returns
       (\<lparr> st = (state_entered ''/proj/src/Counter.js'')
                  \<lparr> needsGblContext := True, needUseStateImport := True \<rparr>,
          registry = [entry_of ''Counter_ab12cd34'' [''_$_count''] [(''_$_count'', JInt 0)]],
          seen = {p_identifier 47 ''_$_count''} \<rparr>,
        counterOutput))"
  by code_simp

section \<open>Which identifiers are processed\<close>

text \<open>
  C4, as the claim states it, fails: the read of the registered \<open>_$_appMessage\<close> in the
  expression child of \<open><h1>\<close> (a child, not an attribute; Babel counts it as a reference)
  has a \<open>JSXExpressionContainer\<close> above it, and the visitor returns with the node, the
  plugin state and the \<open>seen\<close> set untouched.
\<close>

theorem identifier_in_markup_child_counterexample:
  "fst readInMarkupChild = p_identifier 38 ''_$_appMessage''
   \<and> map fkey (snd readInMarkupChild)
       = [''expression'', ''children'', ''argument'', ''body'', ''body'', ''body'']
   \<and> isReferenced_babel readInMarkupChild
   \<and> findContextByVar ''_$_appMessage'' appRegistry = Some ''App_ab12cd34''
   \<and> identifierVisitor (env0 True)
        \<lparr> st = state_entered ''/proj/src/CasperHero.js'', registry = appRegistry, seen = {} \<rparr>
        readInMarkupChild
      = Returns (\<lparr> st = state_entered ''/proj/src/CasperHero.js'', registry = appRegistry,
                   seen = {} \<rparr>, readInMarkupChild)"
  by (simp add: eval_defs heroReadsMessage_def appRegistry_def readInMarkupChild_def)

text \<open>
  C4, amended. In a file that is not excluded, an identifier whose name starts with the
  prefix is passed over (the visitor returns with everything unchanged) when its position
  is excluded in the sense above, which includes an expression child of markup; in every
  other position it is processed: the node enters the \<open>seen\<close> set and the file is flagged
  as needing the shared context.
\<close>

theorem identifierVisitor_processes_iff:
  assumes "isExcludeFile env (fileName_of (st w)) (opts (st w))"
    and "ogetp (fst p) ''name'' = JStr x"
    and "casperConfig (st w) = Some c" and "startsWith x (cfg_prefix c)"
    and "snd p \<noteq> []"
  shows "(excludedPosition env w p \<longrightarrow> identifierVisitor env w p = Returns (w, p))
       \<and> (\<not> excludedPosition env w p \<longrightarrow>
            fst p \<in> seen (fst (final (identifierVisitor env w p)))
            \<and> needsGblContext (st (fst (final (identifierVisitor env w p)))))"
proof -
  obtain f fs where fs: "snd p = f # fs" using assms(5) by (cases "snd p") auto
  have pre: "name_has_prefix (st w) (ogetp (fst p) ''name'') = Some True"
    using assms by (simp add: name_has_prefix_def)
  show ?thesis
    using assms(1) pre fs
    by (auto simp: identifierVisitor_def identifierVisitor_try_def excludedPosition_def
        Let_def flagUseState_def split: option.splits prod.splits)
qed

text \<open>
  The two cases at work: the read in the markup child is excluded and passed over; the
  read \<open>return _$_title\<close> in \<open>App\<close> is not excluded and is processed.
\<close>

theorem identifierVisitor_processes_iff_witness:
  "excludedPosition (env0 True)
     \<lparr> st = state_entered ''/proj/src/CasperHero.js'', registry = appRegistry, seen = {} \<rparr>
     readInMarkupChild
   \<and> identifierVisitor (env0 True)
        \<lparr> st = state_entered ''/proj/src/CasperHero.js'', registry = appRegistry, seen = {} \<rparr>
        readInMarkupChild
      = Returns (\<lparr> st = state_entered ''/proj/src/CasperHero.js'', registry = appRegistry,
                   seen = {} \<rparr>, readInMarkupChild)
   \<and> \<not> excludedPosition (env0 True)
        \<lparr> st = state_entered ''/proj/src/App.js'', registry = headerRegistry, seen = {} \<rparr>
        readInApp
   \<and> fst readInApp
       \<in> seen (fst (final (identifierVisitor (env0 True)
            \<lparr> st = state_entered ''/proj/src/App.js'', registry = headerRegistry, seen = {} \<rparr>
            readInApp)))"
  using identifierVisitor_processes_iff
      [of "env0 True"
          "\<lparr> st = state_entered ''/proj/src/CasperHero.js'', registry = appRegistry,
             seen = {} \<rparr>"
          readInMarkupChild "''_$_appMessage''" config0]
    identifierVisitor_processes_iff
      [of "env0 True"
          "\<lparr> st = state_entered ''/proj/src/App.js'', registry = headerRegistry, seen = {} \<rparr>"
          readInApp "''_$_title''" config0]
  by (simp add: eval_defs excludedPosition_def heroReadsMessage_def appRegistry_def
      readInMarkupChild_def appReadsTitle_def headerRegistry_def readInApp_def)

section \<open>A component that is a function bound to a variable\<close>

text \<open>
  The whole pass over \<open>arrowApp\<close>, a component bound to a variable at the top level of
  its file: the variable is registered under \<open>App_ab12cd34\<close> and the read is rewritten,
  but the declaration stays in the body, no state declaration is injected and the return
  value is not wrapped.
\<close>

lemma arrow_component_file:
  "transformFile (env0 True) config0 60
     \<lparr> st = state_start ''/proj/src/App.js'', registry = [], seen = {} \<rparr> arrowApp
   = Some (Returns
       (\<lparr> st = (state_entered ''/proj/src/App.js'')
                  \<lparr> needsGblContext := True, needUseStateImport := True \<rparr>,
          registry = [entry_of ''App_ab12cd34'' [''_$_x''] [(''_$_x'', JInt 1)]],
          seen = {p_identifier 40 ''_$_x''} \<rparr>,
        arrowAppOutput))"
  by code_simp

text \<open>
  C10. The pass over \<open>outerInner\<close>, where the arrow component \<open>Inner\<close> is declared inside
  the function declaration \<open>Outer\<close>. \<open>Inner\<close> is registered (\<open>Inner_ab12cd34\<close> holds
  \<open>_$_b\<close>) and no exit handler runs for it; yet its declaration \<open>let _$_b = 2\<close> is removed
  from its body and put into the state object of \<open>Outer\<close>, and its return value is
  wrapped in the provider of \<open>Outer\<close>: the collection at the exit of \<open>Outer\<close> walks into
  the arrow function.
\<close>

theorem nested_arrow_component_is_synthesised:
  "resultOf (transformFile (env0 True) config0 60
      \<lparr> st = state_start ''/proj/src/Outer.js'', registry = [], seen = {} \<rparr> outerInner)
   = (outerInnerOutput,
      [entry_of ''Outer_ab12cd34'' [''_$_a''] [(''_$_a'', JInt 1)],
       entry_of ''Inner_ab12cd34'' [''_$_b''] [(''_$_b'', JInt 2)]])"
  by code_simp

section \<open>The collection at the exit of a function declaration\<close>

text \<open>
  The collection on \<open>forInFunction\<close> and on \<open>ifFunction\<close>. The declaration on the left
  of \<open>for\<close>-\<open>in\<close> is recorded and stays, since its removal throws; the one that is the
  consequent of \<open>if\<close> is recorded and gives way to an empty block.
\<close>

lemma collection_under_single_keys:
  "exitTraverse (env0 True) (state_entered ''/proj/src/F.js'')
     (snd (entry_of ''F_ab12cd34'' [''_$_k''] [])) True False False forInFunction
   = (Some forInFunction, [(''_$_k'', JNull)])
   \<and> exitTraverse (env0 True) (state_entered ''/proj/src/G.js'')
       (snd (entry_of ''G_ab12cd34'' [''_$_x''] [])) True False False
       (ifFunction (p_declaration ''var'' (p_identifier 30 ''_$_x'') (t_numericLiteral 1)))
     = (Some (ifFunction emptyBlock), [(''_$_x'', t_numericLiteral 1)])"
  by code_simp

text \<open>
  The default of \<open>objectDefault\<close>: the object \<open>{ 1: 'x', 2: 1.5, b: 1 }\<close>, its array
  indices first.
\<close>

lemma object_default_order:
  "getVariableInitValue objectDefault
   = JObj [(''1'', JStr ''x''), (''2'', JNum 15 1), (''b'', JInt 1)]
   \<and> number_toString 15 1 = ''1.5''"
  by code_simp

text \<open>
  C5. The pass over \<open>appWithCallback\<close>. The declaration \<open>let _$_tmp = 2\<close> and the
  statement \<open>return 3\<close> belong to the callback passed to \<open>useEffect\<close>, a nested function
  (the discovery pass registers \<open>_$_tmp\<close> under \<open>anonymous_function_ab12cd34\<close>). The
  collection at the exit of \<open>App\<close> walks into the callback: it removes the declaration
  from the callback's body, records it in the state object of \<open>App\<close>, and wraps the
  callback's return value in the provider of \<open>App\<close>.
\<close>

theorem nested_callback_is_collected:
  "resultOf (transformFile (env0 True) config0 80
      \<lparr> st = state_start ''/proj/src/App.js'', registry = [], seen = {} \<rparr> appWithCallback)
   = (appWithCallbackOutput,
      [entry_of ''App_ab12cd34'' [''_$_a''] [(''_$_a'', JInt 1)],
       entry_of ''anonymous_function_ab12cd34'' [''_$_tmp''] [(''_$_tmp'', JInt 2)]])"
  by code_simp

section \<open>No exception leaves the pass\<close>

text \<open>A \<open>try\<close> block with an empty \<open>catch\<close> returns what the block left.\<close>

lemma try_catch_final: "try_catch x Returns = Returns (final x)"
  by (cases x) simp_all

lemma visitor_enter_returns:
  "visitor_enter env config w p = Returns (final (visitor_enter env config w p))"
  by (simp add: visitor_enter_def programEnter_def variableDeclarationVisitor_def
      assignmentExpressionVisitor_def identifierVisitor_def try_catch_final)

lemma visitor_exit_returns: "visitor_exit env w p = Returns (final (visitor_exit env w p))"
  by (simp add: visitor_exit_def programExit_def functionDeclarationExit_def try_catch_final)

lemma walk_never_throws: "walk env config fuel w t \<noteq> Some (Throws x)"
proof (induction fuel arbitrary: w t x)
  case 0
  show ?case by simp
next
  case (Suc n)
  show ?case
  proof (cases t)
    case (Visit p)
    obtain w1 p1 where e: "visitor_enter env config w p = Returns (w1, p1)"
      using visitor_enter_returns [of env config w p]
      by (cases "final (visitor_enter env config w p)") auto
    show ?thesis
    proof (cases "fst p1 \<noteq> fst p")
      case True
      then show ?thesis using Visit e Suc.IH by simp
    next
      case False
      then show ?thesis
        using Visit e Suc.IH [of w1 "Props [] (props_of (fst p1)) (snd p1)"]
          visitor_exit_returns
        by (auto split: option.splits outcome.splits)
          (metis outcome.distinct(1))
    qed
  next
    case (Props finished todo fs)
    then show ?thesis
      using Suc.IH
      by (auto split: list.splits option.splits outcome.splits frame.splits jsval.splits)
  next
    case (Elems bef k l r aft fs)
    then show ?thesis
      using Suc.IH
      by (auto split: list.splits option.splits outcome.splits frame.splits)
  qed
qed

lemma visitor_try_keeps_path:
  "variableDeclarationVisitor_try env w p = Throws (w', p') \<Longrightarrow> p' = p"
  "assignmentExpressionVisitor_try env w p = Throws (w', p') \<Longrightarrow> p' = p"
  "identifierVisitor_try env w p = Throws (w', p') \<Longrightarrow> p' = p"
  by (auto simp: variableDeclarationVisitor_try_def assignmentExpressionVisitor_try_def
      identifierVisitor_try_def Let_def
      split: if_splits option.splits bool.splits list.splits prod.splits)

text \<open>
  C9. Every handler the plugin gives to Babel (\<open>Program\<close> enter and exit, the three
  visitors, the exit of a function declaration) and both lifecycle hooks (\<open>pre\<close>,
  \<open>post\<close>) return for every input, whatever the file system does; the traversal, whatever
  its fuel, does not end by an exception. When the body of a visitor throws, the visitor
  returns with the node and the frames it was given, nothing replaced; a digest that
  fails gives the sentinel \<open>noFile\<close>; a context file that cannot be written leaves the
  file system as it was.
\<close>

theorem no_exception_propagates:
  "(\<exists>r. programEnter env config w p = Returns r)
   \<and> (\<exists>r. programExit env w p = Returns r)
   \<and> (\<exists>r. variableDeclarationVisitor env w p = Returns r)
   \<and> (\<exists>r. assignmentExpressionVisitor env w p = Returns r)
   \<and> (\<exists>r. identifierVisitor env w p = Returns r)
   \<and> (\<exists>r. functionDeclarationExit env w p = Returns r)
   \<and> (\<exists>r. preProcess api env f = Returns r)
   \<and> (\<exists>r. postProcess api env virtualRegistry f = Returns r)
   \<and> (\<forall>fuel t x. walk env config fuel w t \<noteq> Some (Throws x))
   \<and> (\<forall>w' p'. variableDeclarationVisitor_try env w pv = Throws (w', p')
         \<longrightarrow> variableDeclarationVisitor env w pv = Returns (w', pv))
   \<and> (\<forall>w' p'. assignmentExpressionVisitor_try env w pa = Throws (w', p')
         \<longrightarrow> assignmentExpressionVisitor env w pa = Returns (w', pa))
   \<and> (\<forall>w' p'. identifierVisitor_try env w pi = Throws (w', p')
         \<longrightarrow> identifierVisitor env w pi = Returns (w', pi))
   \<and> (md5hex env fileName = None \<longrightarrow> getFilePathHASH env fileName = NO_FILE)
   \<and> (writeFileSync api f (CONTEXT_FILE_PATH env) [] = None
         \<longrightarrow> generateContextContent api env virtualRegistry f = Returns f)"
proof -
  have a: "\<forall>w' p'. variableDeclarationVisitor_try env w pv = Throws (w', p')
         \<longrightarrow> variableDeclarationVisitor env w pv = Returns (w', pv)"
    using visitor_try_keeps_path(1) [of env w pv]
    by (auto simp: variableDeclarationVisitor_def)
  have b: "\<forall>w' p'. assignmentExpressionVisitor_try env w pa = Throws (w', p')
         \<longrightarrow> assignmentExpressionVisitor env w pa = Returns (w', pa)"
    using visitor_try_keeps_path(2) [of env w pa]
    by (auto simp: assignmentExpressionVisitor_def)
  have c: "\<forall>w' p'. identifierVisitor_try env w pi = Throws (w', p')
         \<longrightarrow> identifierVisitor env w pi = Returns (w', pi)"
    using visitor_try_keeps_path(3) [of env w pi]
    by (auto simp: identifierVisitor_def)
  have d: "md5hex env fileName = None \<longrightarrow> getFilePathHASH env fileName = NO_FILE"
    by (simp add: getFilePathHASH_def)
  have e: "writeFileSync api f (CONTEXT_FILE_PATH env) [] = None
         \<longrightarrow> generateContextContent api env virtualRegistry f = Returns f"
    by (simp add: generateContextContent_def generateContextContent_try_def)
  have g: "\<forall>fuel t x. walk env config fuel w t \<noteq> Some (Throws x)"
    using walk_never_throws by blast
  have h: "(\<exists>r. programEnter env config w p = Returns r)"
          "(\<exists>r. programExit env w p = Returns r)"
          "(\<exists>r. variableDeclarationVisitor env w p = Returns r)"
          "(\<exists>r. assignmentExpressionVisitor env w p = Returns r)"
          "(\<exists>r. identifierVisitor env w p = Returns r)"
          "(\<exists>r. functionDeclarationExit env w p = Returns r)"
          "(\<exists>r. preProcess api env f = Returns r)"
          "(\<exists>r. postProcess api env virtualRegistry f = Returns r)"
    unfolding programEnter_def programExit_def variableDeclarationVisitor_def
      assignmentExpressionVisitor_def identifierVisitor_def functionDeclarationExit_def
      preProcess_def postProcess_def try_catch_final
    by blast+
  from a b c d e g h show ?thesis by blast
qed

text \<open>
  The three visitors on the world with no import state (for the assignment the
  ReferenceError of strict-mode code comes first), the failed digest and the failed
  write.
\<close>

theorem no_exception_propagates_witness:
  "variableDeclarationVisitor_try noDigestEnv unresolvedWorld declarationInArrow
   = Throws (unresolvedWorld \<lparr> st := (st unresolvedWorld) \<lparr> needsGblContext := True \<rparr> \<rparr>,
             declarationInArrow)
   \<and> assignmentExpressionVisitor_try noDigestEnv unresolvedWorld assignmentInCounter
     = Throws (unresolvedWorld \<lparr> st := (st unresolvedWorld) \<lparr> needsGblContext := True \<rparr> \<rparr>,
               assignmentInCounter)
   \<and> identifierVisitor_try noDigestEnv unresolvedWorld readInApp
     = Throws (unresolvedWorld \<lparr> st := (st unresolvedWorld) \<lparr> needsGblContext := True \<rparr>,
                                  seen := {p_identifier 24 ''_$_title''} \<rparr>,
               readInApp)
   \<and> variableDeclarationVisitor noDigestEnv unresolvedWorld declarationInArrow
   = Returns (unresolvedWorld \<lparr> st := (st unresolvedWorld) \<lparr> needsGblContext := True \<rparr> \<rparr>,
              declarationInArrow)
   \<and> assignmentExpressionVisitor noDigestEnv unresolvedWorld assignmentInCounter
     = Returns (unresolvedWorld \<lparr> st := (st unresolvedWorld) \<lparr> needsGblContext := True \<rparr> \<rparr>,
                assignmentInCounter)
   \<and> identifierVisitor noDigestEnv unresolvedWorld readInApp
     = Returns (unresolvedWorld \<lparr> st := (st unresolvedWorld) \<lparr> needsGblContext := True \<rparr>,
                                   seen := {p_identifier 24 ''_$_title''} \<rparr>,
                readInApp)
   \<and> getFilePathHASH noDigestEnv ''/proj/src/App.js'' = ''noFile''
   \<and> generateContextContent failingFs noDigestEnv counterRegistry () = Returns ()"
  using no_exception_propagates
    [where env = noDigestEnv and config = config0 and w = unresolvedWorld and p = readInApp
       and api = failingFs and f = "()" and virtualRegistry = counterRegistry
       and pv = declarationInArrow and pa = assignmentInCounter and pi = readInApp
       and fileName = "''/proj/src/App.js''"]
  by (simp add: eval_defs variableDeclarationVisitor_def variableDeclarationVisitor_try_def
      getFilePathHASH_def NO_FILE_def noDigestEnv_def failingFs_def unresolvedWorld_def
      counterAssigns_def counterRegistry_def assignmentInCounter_def headerRegistry_def
      appReadsTitle_def readInApp_def arrowApp_def declarationInArrow_def
      generateContextContent_def generateContextContent_try_def)
end
